theory Spec2Isabelle
  imports Complex_Main "HOL-Library.Sublist"
begin

section \<open>Data model\<close>

text \<open>
  A shallow embedding of the watchlog API: the SQLAlchemy models of
  \<^verbatim>\<open>src/models\<close> as records, the tables as lists of rows, the services of
  \<^verbatim>\<open>src/api/progress.py\<close> and \<^verbatim>\<open>src/api/series.py\<close> as functions that take
  the store and return an error or a result with the new store.

  Python integers are \<open>int\<close>. A nullable Integer column is an \<open>int option\<close>
  (\<open>None\<close> is SQL NULL). Timestamps are natural numbers, and the reading of
  \<^verbatim>\<open>datetime.utcnow()\<close> during a request is the parameter \<open>now\<close>.
\<close>

text \<open>
  A value of a JSON request body. JSON numbers with a fraction, arrays and
  objects are not modelled.
\<close>

datatype jval = JInt int | JBool bool | JStr string | JNull

type_synonym payload = "string \<rightharpoonup> jval"

text \<open>The exceptions that the modelled code can raise.\<close>

datatype py_error = ValueError string | TypeError | StopIteration

record Movie =
  movie_id :: int
  movie_title :: string

record Series =
  series_id :: int
  series_title :: string
  total_seasons :: int

record Season =
  season_id :: int
  season_series_id :: int
  number :: int
  episodes_count :: int

text \<open>
  \<^verbatim>\<open>WatchEntry.status\<close> is an attribute that
  \<^verbatim>\<open>update_series_progress\<close> assigns straight from the payload, so it holds
  a JSON value; the three statuses are the strings below.
\<close>

record WatchEntry =
  entry_id :: int
  user_id :: int
  content_type :: string
  content_id :: int
  status :: jval
  current_season :: "int option"
  current_episode :: "int option"
  watched_episodes :: "int option"
  total_episodes :: "int option"
  created_at :: nat
  updated_at :: nat
  movie_content_id :: "int option"
  series_content_id :: "int option"

record store =
  movies :: "Movie list"
  series :: "Series list"
  seasons :: "Season list"
  watch_entries :: "WatchEntry list"

abbreviation pending :: jval where "pending \<equiv> JStr ''pending''"
abbreviation watching :: jval where "watching \<equiv> JStr ''watching''"
abbreviation watched :: jval where "watched \<equiv> JStr ''watched''"

section \<open>Python and store primitives\<close>

text \<open>\<^verbatim>\<open>x or 0\<close> on a nullable integer.\<close>

definition or0 :: "int option \<Rightarrow> int" where
  "or0 x = (case x of None \<Rightarrow> 0 | Some v \<Rightarrow> v)"

text \<open>Truthiness of a nullable integer: neither \<^verbatim>\<open>None\<close> nor 0.\<close>

definition truthy :: "int option \<Rightarrow> bool" where
  "truthy x = (case x of None \<Rightarrow> False | Some v \<Rightarrow> v \<noteq> 0)"

text \<open>
  \<^verbatim>\<open>int(v)\<close> on a payload value. Python's parser of integer literals in a
  \<^verbatim>\<open>str\<close> is a builtin outside the repository: it is the parameter
  \<open>parse\<close>, which gives \<open>None\<close> where \<^verbatim>\<open>int\<close> raises ValueError. The
  routes never read the text of that ValueError, which is abbreviated here.
\<close>

definition py_int :: "(string \<Rightarrow> int option) \<Rightarrow> jval \<Rightarrow> py_error + int" where
  "py_int parse v =
     (case v of
        JInt n \<Rightarrow> Inr n
      | JBool b \<Rightarrow> Inr (if b then 1 else 0)
      | JStr s \<Rightarrow> (case parse s of
                     Some n \<Rightarrow> Inr n
                   | None \<Rightarrow> Inl (ValueError ''invalid literal for int() with base 10''))
      | JNull \<Rightarrow> Inl TypeError)"

text \<open>\<^verbatim>\<open>Series.query.get(id)\<close>, \<^verbatim>\<open>Movie.query.get(id)\<close> and the relationship
  \<^verbatim>\<open>Series.seasons\<close>.\<close>

definition get_series :: "store \<Rightarrow> int \<Rightarrow> Series option" where
  "get_series s sid = find (\<lambda>r. series_id r = sid) (series s)"

definition get_movie :: "store \<Rightarrow> int \<Rightarrow> Movie option" where
  "get_movie s mid = find (\<lambda>r. movie_id r = mid) (movies s)"

definition series_seasons :: "store \<Rightarrow> Series \<Rightarrow> Season list" where
  "series_seasons s r = filter (\<lambda>x. season_series_id x = series_id r) (seasons s)"

text \<open>The relationship \<^verbatim>\<open>WatchEntry.series_content\<close>, through the foreign key
  \<^verbatim>\<open>series_content_id\<close>.\<close>

definition series_content :: "store \<Rightarrow> WatchEntry \<Rightarrow> Series option" where
  "series_content s e =
     (case series_content_id e of None \<Rightarrow> None | Some sid \<Rightarrow> get_series s sid)"

text \<open>\<^verbatim>\<open>WatchEntry.query.filter_by(user_id=.., content_type=.., content_id=..).first()\<close>\<close>

definition entry_matches :: "int \<Rightarrow> string \<Rightarrow> int \<Rightarrow> WatchEntry \<Rightarrow> bool" where
  "entry_matches uid ct cid e \<longleftrightarrow> user_id e = uid \<and> content_type e = ct \<and> content_id e = cid"

definition find_entry :: "store \<Rightarrow> int \<Rightarrow> string \<Rightarrow> int \<Rightarrow> WatchEntry option" where
  "find_entry s uid ct cid = find (entry_matches uid ct cid) (watch_entries s)"

text \<open>The row that a query returned is mutated and committed: the first row
  that satisfies the query is replaced.\<close>

fun replace_first :: "('a \<Rightarrow> bool) \<Rightarrow> 'a \<Rightarrow> 'a list \<Rightarrow> 'a list" where
  "replace_first P y [] = []"
| "replace_first P y (x # xs) = (if P x then y # xs else x # replace_first P y xs)"

text \<open>The primary key of a new row: one more than the largest in the table.\<close>

definition next_id :: "int list \<Rightarrow> int" where
  "next_id ids = fold max ids 0 + 1"

section \<open>\<^verbatim>\<open>src/models/watch_entry.py\<close>\<close>

text \<open>
  \<^verbatim>\<open>round(x, 2)\<close>: to the nearest hundredth, a tie to the even one. The
  floating-point arithmetic of \<^verbatim>\<open>percentage_watched\<close> is idealised as exact
  arithmetic on rationals.
\<close>

definition py_round2 :: "rat \<Rightarrow> rat" where
  "py_round2 x =
     (let y = x * 100; f = \<lfloor>y\<rfloor>; d = y - of_int f
      in of_int (if d < 1 / 2 then f
                 else if 1 / 2 < d then f + 1
                 else if even f then f else f + 1) / 100)"

definition percentage_watched :: "WatchEntry \<Rightarrow> rat" where
  "percentage_watched e =
     (if status e = watched then 100
      else case total_episodes e of
        None \<Rightarrow> 0
      | Some t \<Rightarrow>
          if t = 0 then 0
          else
            let w = min (or0 (watched_episodes e)) t;
                percentage = (of_int w / of_int t) * 100
            in py_round2 percentage)"

text \<open>
  \<^verbatim>\<open>mark_as_watched\<close>. The seasons are read through \<^verbatim>\<open>series_content\<close>;
  \<^verbatim>\<open>max\<close> runs over a list that the guard has found non-empty, and
  \<^verbatim>\<open>next\<close> raises StopIteration when its generator is empty.
\<close>

definition mark_as_watched :: "nat \<Rightarrow> store \<Rightarrow> WatchEntry \<Rightarrow> py_error + WatchEntry" where
  "mark_as_watched now s e0 =
     (let e = e0\<lparr>status := watched\<rparr> in
      if content_type e = ''movie'' then
        Inr (e\<lparr>watched_episodes := Some 1, updated_at := now\<rparr>)
      else if content_type e = ''series'' \<and> truthy (total_episodes e) then
        (let e = e\<lparr>watched_episodes := total_episodes e\<rparr> in
         case series_content s e of
           None \<Rightarrow> Inr (e\<lparr>updated_at := now\<rparr>)
         | Some r \<Rightarrow>
             (case series_seasons s r of
                [] \<Rightarrow> Inr (e\<lparr>updated_at := now\<rparr>)
              | x # xs \<Rightarrow>
                  (let last_season = fold max (map number xs) (number x) in
                   case find (\<lambda>y. number y = last_season) (x # xs) of
                     None \<Rightarrow> Inl StopIteration
                   | Some y \<Rightarrow>
                       Inr (e\<lparr>current_season := Some last_season,
                              current_episode := Some (episodes_count y),
                              updated_at := now\<rparr>))))
      else Inr (e\<lparr>updated_at := now\<rparr>))"

text \<open>
  The constructor: the keyword arguments, then the body of \<^verbatim>\<open>__init__\<close>.
  The primary key and the timestamps are set when the row is inserted.
\<close>

definition WatchEntry_init ::
  "int \<Rightarrow> string \<Rightarrow> int \<Rightarrow> jval \<Rightarrow> int option \<Rightarrow> int option \<Rightarrow> int option \<Rightarrow> int option
   \<Rightarrow> WatchEntry" where
  "WatchEntry_init uid ct cid st tot wat cs ce =
     (let e = \<lparr>entry_id = 0, user_id = uid, content_type = ct, content_id = cid,
               status = st, current_season = cs, current_episode = ce,
               watched_episodes = wat, total_episodes = tot,
               created_at = 0, updated_at = 0,
               movie_content_id = None, series_content_id = None\<rparr>
      in if ct = ''movie'' then
           e\<lparr>movie_content_id := Some cid, total_episodes := Some 1,
             watched_episodes := Some 0\<rparr>
         else if ct = ''series'' then e\<lparr>series_content_id := Some cid\<rparr>
         else e)"

text \<open>A column default applies to an attribute that is still \<^verbatim>\<open>None\<close>.\<close>

definition col_default :: "int \<Rightarrow> int option \<Rightarrow> int option" where
  "col_default d x = (case x of None \<Rightarrow> Some d | Some v \<Rightarrow> Some v)"

text \<open>
  \<^verbatim>\<open>db_session.add(entry); db_session.commit()\<close>: the row gets its primary
  key, the column defaults of the model and both timestamps. The store's check
  of the foreign key to \<^verbatim>\<open>users\<close> is configured outside the modelled files
  and is not part of the model.
\<close>

definition insert_entry :: "nat \<Rightarrow> store \<Rightarrow> WatchEntry \<Rightarrow> WatchEntry \<times> store" where
  "insert_entry now s e0 =
     (let e = e0\<lparr>entry_id := next_id (map entry_id (watch_entries s)),
                 current_season := col_default 1 (current_season e0),
                 current_episode := col_default 1 (current_episode e0),
                 watched_episodes := col_default 0 (watched_episodes e0),
                 total_episodes := col_default 0 (total_episodes e0),
                 created_at := now, updated_at := now\<rparr>
      in (e, s\<lparr>watch_entries := watch_entries s @ [e]\<rparr>))"

section \<open>\<^verbatim>\<open>str\<close> of an integer, for the messages of the exceptions\<close>

definition digit_char :: "nat \<Rightarrow> char" where
  "digit_char d = ''0123456789'' ! d"

function str_nat :: "nat \<Rightarrow> string" where
  "str_nat n = (if n < 10 then [digit_char n] else str_nat (n div 10) @ [digit_char (n mod 10)])"
  by pat_completeness auto
termination
  by (relation "measure id") auto

declare str_nat.simps [simp del]

definition str_int :: "int \<Rightarrow> string" where
  "str_int i = (if i < 0 then CHR ''-'' # str_nat (nat (- i)) else str_nat (nat i))"

section \<open>\<^verbatim>\<open>src/api/progress.py\<close>: the service\<close>

definition add_movie :: "nat \<Rightarrow> store \<Rightarrow> int \<Rightarrow> int \<Rightarrow> py_error + WatchEntry \<times> store" where
  "add_movie now s uid mid =
     (case get_movie s mid of
        None \<Rightarrow> Inl (ValueError (''Pelicula con id '' @ str_int mid @ '' no encontrada.''))
      | Some movie \<Rightarrow>
          (case find_entry s uid ''movie'' mid of
             Some ex \<Rightarrow> Inl (ValueError ''Pelicula ya esta en la watchlist.'')
           | None \<Rightarrow>
               Inr (insert_entry now s
                      (WatchEntry_init uid ''movie'' mid pending None None None None))))"

definition add_series :: "nat \<Rightarrow> store \<Rightarrow> int \<Rightarrow> int \<Rightarrow> py_error + WatchEntry \<times> store" where
  "add_series now s uid sid =
     (case get_series s sid of
        None \<Rightarrow> Inl (ValueError (''Serie con id '' @ str_int sid @ '' no encontrada.''))
      | Some r \<Rightarrow>
          (case find_entry s uid ''series'' sid of
             Some ex \<Rightarrow> Inl (ValueError ''Serie ya esta en la watchlist.'')
           | None \<Rightarrow>
               (let total_ep = sum_list (map episodes_count (series_seasons s r)) in
                Inr (insert_entry now s
                       (WatchEntry_init uid ''series'' sid pending
                          (Some total_ep) (Some 0) (Some 1) (Some 1))))))"

text \<open>Sequencing of steps that can raise.\<close>

definition bind_err :: "'e + 'a \<Rightarrow> ('a \<Rightarrow> 'e + 'b) \<Rightarrow> 'e + 'b" where
  "bind_err m f = (case m of Inl err \<Rightarrow> Inl err | Inr x \<Rightarrow> f x)"

text \<open>The four updatable fields of \<^verbatim>\<open>update_series_progress\<close>, in the order
  of the source.\<close>

definition set_watched_episodes ::
  "(string \<Rightarrow> int option) \<Rightarrow> payload \<Rightarrow> WatchEntry \<Rightarrow> py_error + WatchEntry" where
  "set_watched_episodes parse p e =
     (case p ''watched_episodes'' of
        None \<Rightarrow> Inr e
      | Some v \<Rightarrow>
          bind_err (py_int parse v)
            (\<lambda>w. Inr (e\<lparr>watched_episodes := Some (max 0 (min w (or0 (total_episodes e))))\<rparr>)))"

definition set_current_season ::
  "(string \<Rightarrow> int option) \<Rightarrow> payload \<Rightarrow> WatchEntry \<Rightarrow> py_error + WatchEntry" where
  "set_current_season parse p e =
     (case p ''current_season'' of
        None \<Rightarrow> Inr e
      | Some v \<Rightarrow> bind_err (py_int parse v) (\<lambda>n. Inr (e\<lparr>current_season := Some n\<rparr>)))"

definition set_current_episode ::
  "(string \<Rightarrow> int option) \<Rightarrow> payload \<Rightarrow> WatchEntry \<Rightarrow> py_error + WatchEntry" where
  "set_current_episode parse p e =
     (case p ''current_episode'' of
        None \<Rightarrow> Inr e
      | Some v \<Rightarrow> bind_err (py_int parse v) (\<lambda>n. Inr (e\<lparr>current_episode := Some n\<rparr>)))"

definition set_status :: "nat \<Rightarrow> store \<Rightarrow> payload \<Rightarrow> WatchEntry \<Rightarrow> py_error + WatchEntry" where
  "set_status now s p e =
     (case p ''status'' of
        None \<Rightarrow> Inr e
      | Some v \<Rightarrow> if v = watched then mark_as_watched now s e else Inr (e\<lparr>status := v\<rparr>))"

text \<open>
  The recomputation. The test
  \<^verbatim>\<open>(watched or 0) >= (total or 0) and entry.total_episodes > 0\<close> evaluates its
  right side only when the left one holds, and \<^verbatim>\<open>None > 0\<close> raises TypeError.
\<close>

definition completed :: "WatchEntry \<Rightarrow> py_error + bool" where
  "completed e =
     (if or0 (total_episodes e) \<le> or0 (watched_episodes e) then
        (case total_episodes e of None \<Rightarrow> Inl TypeError | Some t \<Rightarrow> Inr (0 < t))
      else Inr False)"

definition recompute :: "nat \<Rightarrow> store \<Rightarrow> WatchEntry \<Rightarrow> py_error + WatchEntry" where
  "recompute now s e =
     (if status e \<noteq> watched then
        bind_err (completed e)
          (\<lambda>c. if c then mark_as_watched now s e
               else if 0 < or0 (watched_episodes e) then Inr (e\<lparr>status := watching\<rparr>)
               else Inr (e\<lparr>status := pending\<rparr>))
      else Inr e)"

text \<open>
  \<^verbatim>\<open>db_session.commit()\<close> on a row that was loaded: \<^verbatim>\<open>onupdate\<close> stamps
  \<^verbatim>\<open>updated_at\<close> when the row has changed.
\<close>

definition commit_entry :: "nat \<Rightarrow> WatchEntry \<Rightarrow> WatchEntry \<Rightarrow> WatchEntry" where
  "commit_entry now old e = (if e = old then e else e\<lparr>updated_at := now\<rparr>)"

definition update_series_progress ::
  "(string \<Rightarrow> int option) \<Rightarrow> nat \<Rightarrow> store \<Rightarrow> int \<Rightarrow> int \<Rightarrow> payload
   \<Rightarrow> py_error + WatchEntry \<times> store" where
  "update_series_progress parse now s uid sid p =
     (case find_entry s uid ''series'' sid of
        None \<Rightarrow> Inl (ValueError ''Entrada no encontrada en la watchlist.'')
      | Some entry \<Rightarrow>
          bind_err (set_watched_episodes parse p entry) (\<lambda>e1.
          bind_err (set_current_season parse p e1) (\<lambda>e2.
          bind_err (set_current_episode parse p e2) (\<lambda>e3.
          bind_err (set_status now s p e3) (\<lambda>e4.
          bind_err (recompute now s e4) (\<lambda>e5.
            let e = commit_entry now entry e5 in
            Inr (e, s\<lparr>watch_entries :=
                       replace_first (entry_matches uid ''series'' sid) e
                         (watch_entries s)\<rparr>)))))))"

section \<open>\<^verbatim>\<open>src/api/progress.py\<close>: the routes\<close>

text \<open>
  A route gives the HTTP status and the store after the request; the JSON body
  is left out. An exception leaves the store as it was: nothing was committed.

  \<^verbatim>\<open>require_user_id\<close> receives the value of
  \<^verbatim>\<open>request.headers.get("X-User-Id", type=int)\<close>, which is \<^verbatim>\<open>None\<close> when
  the header is absent or is not the text of an integer. \<^verbatim>\<open>abort(401)\<close>
  ends the request with that status.
\<close>

definition require_user_id :: "(int \<Rightarrow> 'a) \<Rightarrow> int option \<Rightarrow> nat + 'a" where
  "require_user_id f hdr =
     (case hdr of
        None \<Rightarrow> Inl 401
      | Some uid \<Rightarrow> if uid = 0 then Inl 401 else Inr (f uid))"

definition add_movie_to_watchlist :: "nat \<Rightarrow> store \<Rightarrow> int \<Rightarrow> int \<Rightarrow> nat \<times> store" where
  "add_movie_to_watchlist now s uid mid =
     (case add_movie now s uid mid of
        Inr (new_entry, s') \<Rightarrow> (201, s')
      | Inl (ValueError msg) \<Rightarrow>
          if sublist ''no encontrada'' msg then (404, s) else (409, s)
      | Inl other \<Rightarrow> (500, s))"

definition add_series_to_watchlist :: "nat \<Rightarrow> store \<Rightarrow> int \<Rightarrow> int \<Rightarrow> nat \<times> store" where
  "add_series_to_watchlist now s uid sid =
     (case add_series now s uid sid of
        Inr (new_entry, s') \<Rightarrow> (201, s')
      | Inl (ValueError msg) \<Rightarrow>
          if sublist ''no encontrada'' msg then (404, s) else (409, s)
      | Inl other \<Rightarrow> (500, s))"

definition update_series_progress_route ::
  "(string \<Rightarrow> int option) \<Rightarrow> nat \<Rightarrow> store \<Rightarrow> int \<Rightarrow> int \<Rightarrow> payload \<Rightarrow> nat \<times> store" where
  "update_series_progress_route parse now s uid sid p =
     (if dom p = {} then (400, s)
      else case update_series_progress parse now s uid sid p of
        Inr (updated_entry, s') \<Rightarrow> (200, s')
      | Inl (ValueError msg) \<Rightarrow> (404, s)
      | Inl other \<Rightarrow> (500, s))"

text \<open>An endpoint is its route under the decorator.\<close>

definition endpoint :: "store \<Rightarrow> (int \<Rightarrow> nat \<times> store) \<Rightarrow> int option \<Rightarrow> nat \<times> store" where
  "endpoint s route hdr =
     (case require_user_id route hdr of Inl code \<Rightarrow> (code, s) | Inr r \<Rightarrow> r)"

section \<open>\<^verbatim>\<open>src/api/series.py\<close>: adding a season\<close>

text \<open>
  The payload of \<^verbatim>\<open>add_season\<close>, with the two keys that the service
  reads. Their values are JSON integers.
\<close>

record season_payload =
  p_number :: "int option"
  p_episodes_count :: "int option"

definition add_season :: "store \<Rightarrow> int \<Rightarrow> season_payload \<Rightarrow> py_error + Season \<times> store" where
  "add_season s sid p =
     (case get_series s sid of
        None \<Rightarrow> Inl (ValueError (''La serie con id '' @ str_int sid @ '' no existe.''))
      | Some r \<Rightarrow>
          (case (p_number p, p_episodes_count p) of
             (Some n, Some c) \<Rightarrow>
               (case find (\<lambda>x. season_series_id x = sid \<and> number x = n) (seasons s) of
                  Some ex \<Rightarrow>
                    Inl (ValueError
                      (''La temporada '' @ str_int n @ '' ya existe para esta serie.''))
                | None \<Rightarrow>
                    (let new_season =
                       \<lparr>season_id = next_id (map season_id (seasons s)),
                        season_series_id = sid, number = n, episodes_count = c\<rparr>
                     in Inr (new_season, s\<lparr>seasons := seasons s @ [new_season]\<rparr>)))
           | _ \<Rightarrow>
               Inl (ValueError
                 (''Los campos '' @ [CHR 0x27] @ ''number'' @ [CHR 0x27] @ '' y ''
                  @ [CHR 0x27] @ ''episodes_count'' @ [CHR 0x27] @ '' son obligatorios.''))))"

definition add_season_route :: "store \<Rightarrow> int \<Rightarrow> season_payload \<Rightarrow> nat \<times> store" where
  "add_season_route s sid p =
     (case add_season s sid p of
        Inr (new_season, s') \<Rightarrow> (201, s')
      | Inl (ValueError msg) \<Rightarrow>
          if sublist ''no existe'' msg then (404, s) else (400, s)
      | Inl other \<Rightarrow> (500, s))"

text \<open>The three decorated endpoints of \<^verbatim>\<open>src/api/progress.py\<close> that write.\<close>

definition add_movie_endpoint :: "nat \<Rightarrow> store \<Rightarrow> int option \<Rightarrow> int \<Rightarrow> nat \<times> store" where
  "add_movie_endpoint now s hdr mid =
     endpoint s (\<lambda>uid. add_movie_to_watchlist now s uid mid) hdr"

definition add_series_endpoint :: "nat \<Rightarrow> store \<Rightarrow> int option \<Rightarrow> int \<Rightarrow> nat \<times> store" where
  "add_series_endpoint now s hdr sid =
     endpoint s (\<lambda>uid. add_series_to_watchlist now s uid sid) hdr"

definition update_progress_endpoint ::
  "(string \<Rightarrow> int option) \<Rightarrow> nat \<Rightarrow> store \<Rightarrow> int option \<Rightarrow> int \<Rightarrow> payload \<Rightarrow> nat \<times> store" where
  "update_progress_endpoint parse now s hdr sid p =
     endpoint s (\<lambda>uid. update_series_progress_route parse now s uid sid p) hdr"

text \<open>The store after a list of \<^verbatim>\<open>POST /series/<id>/seasons\<close> requests.\<close>

definition add_seasons :: "(int \<times> season_payload) list \<Rightarrow> store \<Rightarrow> store" where
  "add_seasons reqs s = fold (\<lambda>(sid, p) st. snd (add_season_route st sid p)) reqs s"

section \<open>Notions used in the statements\<close>

text \<open>
  The cursor that \<^verbatim>\<open>mark_as_watched\<close> computes from the seasons of the
  entry's series: the highest season number with the \<^verbatim>\<open>episodes_count\<close> of
  the first season that has it; \<open>None\<close> when the entry has no series or the
  series has no seasons.
\<close>

definition terminal_cursor :: "store \<Rightarrow> WatchEntry \<Rightarrow> (int \<times> int) option" where
  "terminal_cursor s e =
     (case series_content s e of
        None \<Rightarrow> None
      | Some r \<Rightarrow>
          (case series_seasons s r of
             [] \<Rightarrow> None
           | x # xs \<Rightarrow>
               (let last_season = fold max (map number xs) (number x) in
                map_option (\<lambda>y. (last_season, episodes_count y))
                  (find (\<lambda>y. number y = last_season) (x # xs)))))"

text \<open>\<^verbatim>\<open>int(..)\<close> succeeds on a payload value, or the key is absent.\<close>

definition converts :: "(string \<Rightarrow> int option) \<Rightarrow> jval option \<Rightarrow> bool" where
  "converts parse x = (case x of None \<Rightarrow> True | Some v \<Rightarrow> \<not> isl (py_int parse v))"

text \<open>The three numeric keys of a payload hold values that \<^verbatim>\<open>int\<close> accepts.\<close>

definition numeric_ok :: "(string \<Rightarrow> int option) \<Rightarrow> payload \<Rightarrow> bool" where
  "numeric_ok parse p \<longleftrightarrow>
     converts parse (p ''watched_episodes'') \<and> converts parse (p ''current_season'')
     \<and> converts parse (p ''current_episode'')"

text \<open>The entry that \<^verbatim>\<open>mark_as_watched\<close> leaves when the content is a
  series.\<close>

definition marked :: "nat \<Rightarrow> store \<Rightarrow> WatchEntry \<Rightarrow> WatchEntry" where
  "marked now s e =
     (if truthy (total_episodes e) then
        (case terminal_cursor s e of
           None \<Rightarrow> e\<lparr>status := watched, watched_episodes := total_episodes e,
                     updated_at := now\<rparr>
         | Some (m, c) \<Rightarrow>
             e\<lparr>status := watched, watched_episodes := total_episodes e,
               current_season := Some m, current_episode := Some c, updated_at := now\<rparr>)
      else e\<lparr>status := watched, updated_at := now\<rparr>)"

text \<open>
  The first three steps of \<^verbatim>\<open>update_series_progress\<close> taken together, and
  the values they store when every \<^verbatim>\<open>int(..)\<close> succeeds.
\<close>

definition apply_fields ::
  "(string \<Rightarrow> int option) \<Rightarrow> payload \<Rightarrow> WatchEntry \<Rightarrow> py_error + WatchEntry" where
  "apply_fields parse p e =
     bind_err (set_watched_episodes parse p e) (\<lambda>e1.
     bind_err (set_current_season parse p e1) (\<lambda>e2.
     set_current_episode parse p e2))"

definition new_watched :: "(string \<Rightarrow> int option) \<Rightarrow> payload \<Rightarrow> WatchEntry \<Rightarrow> int option" where
  "new_watched parse p e =
     (case p ''watched_episodes'' of
        None \<Rightarrow> watched_episodes e
      | Some v \<Rightarrow>
          (case py_int parse v of
             Inr w \<Rightarrow> Some (max 0 (min w (or0 (total_episodes e))))
           | Inl err \<Rightarrow> watched_episodes e))"

definition new_cursor :: "(string \<Rightarrow> int option) \<Rightarrow> jval option \<Rightarrow> int option \<Rightarrow> int option" where
  "new_cursor parse x old =
     (case x of
        None \<Rightarrow> old
      | Some v \<Rightarrow> (case py_int parse v of Inr n \<Rightarrow> Some n | Inl err \<Rightarrow> old))"

text \<open>The entry after the three numeric fields, and after the status field,
  when nothing raises.\<close>

definition fields_set :: "(string \<Rightarrow> int option) \<Rightarrow> payload \<Rightarrow> WatchEntry \<Rightarrow> WatchEntry" where
  "fields_set parse p e =
     e\<lparr>watched_episodes := new_watched parse p e,
       current_season := new_cursor parse (p ''current_season'') (current_season e),
       current_episode := new_cursor parse (p ''current_episode'') (current_episode e)\<rparr>"

definition status_set :: "nat \<Rightarrow> store \<Rightarrow> payload \<Rightarrow> WatchEntry \<Rightarrow> WatchEntry" where
  "status_set now s p e =
     (case p ''status'' of
        None \<Rightarrow> e
      | Some v \<Rightarrow> if v = watched then marked now s e else e\<lparr>status := v\<rparr>)"

text \<open>
  The stores that the operations reach from a store without watchlist
  entries, whatever its catalog: adding a movie or a series to a watchlist,
  updating the progress of a series, and adding a season to a series.
\<close>

inductive reachable :: "store \<Rightarrow> bool" where
  start: "watch_entries s = [] \<Longrightarrow> reachable s"
| movie: "reachable s \<Longrightarrow> add_movie now s uid mid = Inr (e, s') \<Longrightarrow> reachable s'"
| series: "reachable s \<Longrightarrow> add_series now s uid sid = Inr (e, s') \<Longrightarrow> reachable s'"
| progress: "reachable s \<Longrightarrow> update_series_progress parse now s uid sid p = Inr (e, s')
             \<Longrightarrow> reachable s'"
| season: "reachable s \<Longrightarrow> add_season s sid q = Inr (x, s') \<Longrightarrow> reachable s'"

text \<open>
  What the operations keep true of every entry: both counters are set, the
  watched episodes are not negative or are the total, and an entry that is not
  watched has not reached a positive total.
\<close>

definition progress_ok :: "WatchEntry \<Rightarrow> bool" where
  "progress_ok e \<longleftrightarrow>
     (case (total_episodes e, watched_episodes e) of
        (Some t, Some w) \<Rightarrow>
          (0 \<le> w \<or> w = t) \<and> (status e = watched \<or> \<not> (0 < t \<and> t \<le> w))
      | _ \<Rightarrow> False)"

section \<open>Example stores\<close>

text \<open>A catalog with one movie and one series of two seasons, 10 and 8
  episodes, and no watchlist yet.\<close>

definition demo_store :: store where
  "demo_store =
     \<lparr>movies = [\<lparr>movie_id = 1, movie_title = ''Alien''\<rparr>],
      series = [\<lparr>series_id = 1, series_title = ''Dark'', total_seasons = 2\<rparr>],
      seasons = [\<lparr>season_id = 1, season_series_id = 1, number = 1, episodes_count = 10\<rparr>,
                 \<lparr>season_id = 2, season_series_id = 1, number = 2, episodes_count = 8\<rparr>],
      watch_entries = []\<rparr>"

definition demo_series :: Series where
  "demo_series = \<lparr>series_id = 1, series_title = ''Dark'', total_seasons = 2\<rparr>"

text \<open>A series entry of user 7 on the series of \<open>demo_store\<close>, with the given
  status, cursor and counters.\<close>

definition demo_entry :: "jval \<Rightarrow> int option \<Rightarrow> int option \<Rightarrow> int option \<Rightarrow> int option \<Rightarrow> WatchEntry" where
  "demo_entry st cs ce wat tot =
     \<lparr>entry_id = 1, user_id = 7, content_type = ''series'', content_id = 1,
      status = st, current_season = cs, current_episode = ce,
      watched_episodes = wat, total_episodes = tot,
      created_at = 5, updated_at = 5,
      movie_content_id = None, series_content_id = Some 1\<rparr>"

text \<open>The same user's entry on the movie.\<close>

definition demo_movie_entry :: WatchEntry where
  "demo_movie_entry =
     \<lparr>entry_id = 2, user_id = 7, content_type = ''movie'', content_id = 1,
      status = pending, current_season = Some 1, current_episode = Some 1,
      watched_episodes = Some 0, total_episodes = Some 1,
      created_at = 6, updated_at = 6,
      movie_content_id = Some 1, series_content_id = None\<rparr>"

definition with_entries :: "WatchEntry list \<Rightarrow> store" where
  "with_entries es = demo_store\<lparr>watch_entries := es\<rparr>"

text \<open>A catalog whose only series has one season of 100000 episodes, with
  the given watchlist.\<close>

definition marathon_store :: "WatchEntry list \<Rightarrow> store" where
  "marathon_store es =
     \<lparr>movies = [],
      series = [\<lparr>series_id = 1, series_title = ''Daily'', total_seasons = 1\<rparr>],
      seasons = [\<lparr>season_id = 1, season_series_id = 1, number = 1,
                  episodes_count = 100000\<rparr>],
      watch_entries = es\<rparr>"

text \<open>A parser of integer literals that accepts nothing: enough where no
  payload value is a string.\<close>

definition no_literal :: "string \<Rightarrow> int option" where
  "no_literal s = None"

section \<open>The messages that the routes inspect\<close>

text \<open>
  The routes choose the status from the text of the ValueError
  (\<^verbatim>\<open>"no encontrada" in str(ve)\<close>, \<^verbatim>\<open>"no existe" in str(ve)\<close>). The
  decimal text of an integer has no letter \<open>n\<close>, so an identifier inside a
  message cannot bring the searched words in.
\<close>

lemma digit_char_not_n: "d < 10 \<Longrightarrow> digit_char d \<noteq> CHR ''n''"
proof -
  assume "d < 10"
  then have "d \<in> {0, 1, 2, 3, 4, 5, 6, 7, 8, 9}" by auto
  then show ?thesis by (auto simp: digit_char_def)
qed

lemma str_nat_no_n: "CHR ''n'' \<notin> set (str_nat k)"
proof (induction k rule: str_nat.induct)
  case (1 n)
  show ?case
  proof (cases "n < 10")
    case True
    then show ?thesis using digit_char_not_n [of n] by (subst str_nat.simps) simp
  next
    case False
    have "n mod 10 < 10" by simp
    then have "digit_char (n mod 10) \<noteq> CHR ''n''" by (rule digit_char_not_n)
    with False 1 show ?thesis by (subst str_nat.simps) simp
  qed
qed

lemma str_int_no_n: "CHR ''n'' \<notin> set (str_int i)"
  by (simp add: str_int_def str_nat_no_n)

lemma season_exists_msg: "\<not> sublist ''no existe'' (''La temporada '' @ str_int n @ '' ya existe para esta serie.'')"
proof
  assume "sublist ''no existe'' (''La temporada '' @ str_int n @ '' ya existe para esta serie.'')"
  then have "set ''no existe'' \<subseteq> set (''La temporada '' @ str_int n @ '' ya existe para esta serie.'')"
    by (rule set_mono_sublist)
  then show False using str_int_no_n [of n] by auto
qed

lemma missing_fields_msg:
  "\<not> sublist ''no existe'' (''Los campos '' @ [CHR 0x27] @ ''number'' @ [CHR 0x27] @ '' y ''
                  @ [CHR 0x27] @ ''episodes_count'' @ [CHR 0x27] @ '' son obligatorios.'')"
  by (simp add: sublist_Cons_right)

lemma already_msgs:
  "\<not> sublist ''no encontrada'' ''Pelicula ya esta en la watchlist.''"
  "\<not> sublist ''no encontrada'' ''Serie ya esta en la watchlist.''"
  by (simp_all add: sublist_Cons_right)

lemma not_found_msgs:
  "sublist ''no encontrada'' (''Pelicula con id '' @ str_int k @ '' no encontrada.'')"
  "sublist ''no encontrada'' (''Serie con id '' @ str_int k @ '' no encontrada.'')"
  "sublist ''no existe'' (''La serie con id '' @ str_int k @ '' no existe.'')"
proof -
  have a: "'' no encontrada.'' = '' '' @ ''no encontrada'' @ ''.''" by simp
  have b: "'' no existe.'' = '' '' @ ''no existe'' @ ''.''" by simp
  show "sublist ''no encontrada'' (''Pelicula con id '' @ str_int k @ '' no encontrada.'')"
    unfolding a by (metis append.assoc sublist_appendI)
  show "sublist ''no encontrada'' (''Serie con id '' @ str_int k @ '' no encontrada.'')"
    unfolding a by (metis append.assoc sublist_appendI)
  show "sublist ''no existe'' (''La serie con id '' @ str_int k @ '' no existe.'')"
    unfolding b by (metis append.assoc sublist_appendI)
qed

section \<open>Store lemmas\<close>

lemma find_exists: "\<exists>x\<in>set xs. P x \<Longrightarrow> \<exists>y. find P xs = Some y"
  by (cases "find P xs") (auto simp: find_None_iff)

lemma find_append_new: "find P xs = None \<Longrightarrow> P y \<Longrightarrow> find P (xs @ [y]) = Some y"
  by (induction xs) (auto split: if_splits)

lemma insert_entry_found:
  assumes "find_entry s uid ct cid = None" and "insert_entry now s e0 = (e, s')"
    and "user_id e0 = uid" and "content_type e0 = ct" and "content_id e0 = cid"
  shows "find_entry s' uid ct cid = Some e"
proof -
  have m: "entry_matches uid ct cid e"
    using assms(2-5) by (auto simp: insert_entry_def entry_matches_def Let_def)
  have w: "watch_entries s' = watch_entries s @ [e]"
    using assms(2) by (auto simp: insert_entry_def Let_def)
  show ?thesis
    using assms(1) m unfolding find_entry_def w by (rule find_append_new)
qed

lemma add_season_route_entries [simp]:
  "watch_entries (snd (add_season_route s sid p)) = watch_entries s"
  by (auto simp: add_season_route_def add_season_def Let_def
      split: option.splits sum.splits py_error.splits prod.splits)

lemma add_seasons_entries [simp]: "watch_entries (add_seasons reqs s) = watch_entries s"
  unfolding add_seasons_def
  by (induction reqs arbitrary: s) (auto split: prod.splits)

lemma find_entry_SomeD:
  "find_entry s uid ct cid = Some e \<Longrightarrow>
     user_id e = uid \<and> content_type e = ct \<and> content_id e = cid \<and> e \<in> set (watch_entries s)"
  by (auto simp: find_entry_def entry_matches_def find_Some_iff)

lemma replace_first_find:
  "P y \<Longrightarrow> find P xs = Some x \<Longrightarrow> find P (replace_first P y xs) = Some y"
  by (induction xs) (auto split: if_splits)

lemma fold_max_ge: "(a::int) \<le> fold max xs a \<and> (\<forall>x\<in>set xs. x \<le> fold max xs a)"
proof (induction xs arbitrary: a)
  case Nil
  then show ?case by simp
next
  case (Cons x xs)
  from Cons [of "max x a"] show ?case by auto
qed

lemma fold_max_mem: "fold max xs (a::int) \<in> set (a # xs)"
proof (induction xs arbitrary: a)
  case Nil
  then show ?case by simp
next
  case (Cons x xs)
  from Cons [of "max x a"] show ?case by (auto simp: max_def split: if_splits)
qed

lemma terminal_cursor_last:
  assumes "series_content s e = Some r" and "series_seasons s r \<noteq> []"
  shows "\<exists>y\<in>set (series_seasons s r).
           terminal_cursor s e = Some (number y, episodes_count y)
           \<and> (\<forall>z\<in>set (series_seasons s r). number z \<le> number y)"
proof -
  obtain x xs where ss: "series_seasons s r = x # xs"
    using assms(2) by (cases "series_seasons s r") auto
  let ?m = "fold max (map number xs) (number x)"
  have "?m \<in> set (number x # map number xs)" by (rule fold_max_mem)
  then have "\<exists>y\<in>set (x # xs). number y = ?m" by auto
  then obtain y where y: "find (\<lambda>y. number y = ?m) (x # xs) = Some y"
    using find_exists [of "x # xs" "\<lambda>y. number y = ?m"] by blast
  then have ym: "number y = ?m" and yin: "y \<in> set (x # xs)"
    by (auto simp: find_Some_iff in_set_conv_nth split: if_splits)
  have ge: "\<forall>z\<in>set (x # xs). number z \<le> ?m"
    using fold_max_ge [of "number x" "map number xs"] by auto
  have "terminal_cursor s e = Some (number y, episodes_count y)"
    using assms(1) ss y ym by (simp add: terminal_cursor_def Let_def del: find.simps)
  moreover have "\<forall>z\<in>set (series_seasons s r). number z \<le> number y"
    using ge ym ss by simp
  moreover have "y \<in> set (series_seasons s r)"
    using yin ss by simp
  ultimately show ?thesis by blast
qed

lemma terminal_cursor_None:
  "terminal_cursor s e = None \<longleftrightarrow>
     (series_content s e = None \<or> (\<exists>r. series_content s e = Some r \<and> series_seasons s r = []))"
proof (cases "series_content s e")
  case None
  then show ?thesis by (simp add: terminal_cursor_def)
next
  case (Some r)
  show ?thesis
  proof (cases "series_seasons s r = []")
    case True
    with Some show ?thesis by (simp add: terminal_cursor_def)
  next
    case False
    from terminal_cursor_last [OF Some False] Some False show ?thesis by auto
  qed
qed

lemma series_content_upd [simp]:
  "series_content s (e\<lparr>status := a\<rparr>) = series_content s e"
  "series_content s (e\<lparr>watched_episodes := b\<rparr>) = series_content s e"
  by (simp_all add: series_content_def)

lemma mark_as_watched_series:
  assumes "content_type e = ''series''"
  shows "mark_as_watched now s e =
     Inr (if truthy (total_episodes e) then
            (case terminal_cursor s e of
               None \<Rightarrow> e\<lparr>status := watched, watched_episodes := total_episodes e,
                         updated_at := now\<rparr>
             | Some (m, c) \<Rightarrow>
                 e\<lparr>status := watched, watched_episodes := total_episodes e,
                   current_season := Some m, current_episode := Some c, updated_at := now\<rparr>)
          else e\<lparr>status := watched, updated_at := now\<rparr>)"
proof (cases "truthy (total_episodes e)")
  case False
  with assms show ?thesis by (simp add: mark_as_watched_def)
next
  case True
  show ?thesis
  proof (cases "series_content s e")
    case None
    with True assms show ?thesis
      by (simp add: mark_as_watched_def terminal_cursor_def)
  next
    case (Some r)
    show ?thesis
    proof (cases "series_seasons s r")
      case Nil
      with Some True assms show ?thesis
        by (simp add: mark_as_watched_def terminal_cursor_def)
    next
      case (Cons x xs)
      let ?m = "fold max (map number xs) (number x)"
      have "?m \<in> set (number x # map number xs)" by (rule fold_max_mem)
      then have "\<exists>y\<in>set (x # xs). number y = ?m" by auto
      then obtain y :: Season where f: "find (\<lambda>y. number y = ?m) (x # xs) = Some y"
        using find_exists [of "x # xs" "\<lambda>y. number y = ?m"] by blast
      have tc: "terminal_cursor s e = Some (?m, episodes_count y)"
        by (simp only: terminal_cursor_def Some Cons Let_def f option.case list.case
            option.map)
      show ?thesis
        unfolding tc mark_as_watched_def
        by (simp only: Let_def series_content_upd Some Cons f option.case list.case
            True assms if_True if_False prod.case)
           (simp add: assms True)
    qed
  qed
qed

section \<open>Duplicate season numbers\<close>

text \<open>
  C6, as the code has it. Adding a season whose number an existing season of
  the series already has raises ValueError in the service, and the route
  answers 400 (not 409): \<^verbatim>\<open>"no existe"\<close> is not in the message, and every
  other ValueError of \<^verbatim>\<open>add_season\<close> is mapped to 400. No season is
  created and the store is unchanged.
\<close>

theorem add_season_duplicate:
  assumes "get_series s sid = Some r"
    and "\<exists>x\<in>set (seasons s). season_series_id x = sid \<and> number x = n"
    and "p_number p = Some n"
  shows "(\<exists>msg. add_season s sid p = Inl (ValueError msg))
         \<and> add_season_route s sid p = (400, s)"
proof -
  obtain ex where
    ex: "find (\<lambda>x. season_series_id x = sid \<and> number x = n) (seasons s) = Some ex"
    using find_exists [OF assms(2)] by blast
  show ?thesis
  proof (cases "p_episodes_count p")
    case None
    with assms(1,3) show ?thesis
      using missing_fields_msg by (simp add: add_season_route_def add_season_def)
  next
    case (Some c)
    with assms(1,3) ex show ?thesis
      using season_exists_msg [of n] by (simp add: add_season_route_def add_season_def)
  qed
qed

theorem add_season_duplicate_witness:
  "(\<exists>msg. add_season demo_store 1 \<lparr>p_number = Some 2, p_episodes_count = Some 6\<rparr>
           = Inl (ValueError msg))
   \<and> add_season_route demo_store 1 \<lparr>p_number = Some 2, p_episodes_count = Some 6\<rparr>
       = (400, demo_store)"
  using add_season_duplicate [of demo_store 1 demo_series 2
      "\<lparr>p_number = Some 2, p_episodes_count = Some 6\<rparr>"]
  by (simp add: demo_store_def demo_series_def get_series_def)

text \<open>The series of \<open>demo_store\<close> has a season 2; a second season 2 is
  answered with 400, so the status is not 409.\<close>

theorem add_season_duplicate_not_409:
  "fst (add_season_route demo_store 1 \<lparr>p_number = Some 2, p_episodes_count = Some 6\<rparr>) = 400
   \<and> fst (add_season_route demo_store 1 \<lparr>p_number = Some 2, p_episodes_count = Some 6\<rparr>) \<noteq> 409"
proof -
  have "add_season demo_store 1 \<lparr>p_number = Some 2, p_episodes_count = Some 6\<rparr>
        = Inl (ValueError (''La temporada '' @ str_int 2 @ '' ya existe para esta serie.''))"
    by (simp add: add_season_def demo_store_def get_series_def)
  then show ?thesis
    using season_exists_msg [of 2] by (simp add: add_season_route_def)
qed

section \<open>Adding to the watchlist\<close>

text \<open>
  C8. When the movie (the series) exists and the user already has an entry for
  it, \<^verbatim>\<open>add_movie\<close> (\<^verbatim>\<open>add_series\<close>) raises ValueError, the route answers
  409, and the store is the one before the call: no entry is created and none
  is changed.
\<close>

theorem duplicate_entry_conflict:
  "(get_movie s mid = Some m \<and> find_entry s uid ''movie'' mid = Some ex \<longrightarrow>
      add_movie now s uid mid = Inl (ValueError ''Pelicula ya esta en la watchlist.'')
      \<and> add_movie_to_watchlist now s uid mid = (409, s))
   \<and> (get_series s sid = Some r \<and> find_entry s uid ''series'' sid = Some ex' \<longrightarrow>
      add_series now s uid sid = Inl (ValueError ''Serie ya esta en la watchlist.'')
      \<and> add_series_to_watchlist now s uid sid = (409, s))"
  using already_msgs
  by (simp add: add_movie_def add_movie_to_watchlist_def add_series_def
      add_series_to_watchlist_def)

theorem duplicate_entry_conflict_witness:
  "add_movie_to_watchlist 9
     (with_entries [demo_entry pending (Some 1) (Some 1) (Some 0) (Some 18), demo_movie_entry])
     7 1
   = (409, with_entries [demo_entry pending (Some 1) (Some 1) (Some 0) (Some 18), demo_movie_entry])
   \<and> add_series_to_watchlist 9
     (with_entries [demo_entry pending (Some 1) (Some 1) (Some 0) (Some 18), demo_movie_entry])
     7 1
   = (409, with_entries [demo_entry pending (Some 1) (Some 1) (Some 0) (Some 18), demo_movie_entry])"
  using duplicate_entry_conflict
    [of "with_entries [demo_entry pending (Some 1) (Some 1) (Some 0) (Some 18), demo_movie_entry]"
        1 "\<lparr>movie_id = 1, movie_title = ''Alien''\<rparr>" 7 demo_movie_entry 9
        1 demo_series "demo_entry pending (Some 1) (Some 1) (Some 0) (Some 18)"]
  by (simp add: with_entries_def demo_store_def demo_series_def demo_entry_def
      demo_movie_entry_def get_movie_def get_series_def find_entry_def entry_matches_def)

text \<open>
  C7. For a series that exists and is not yet in the user's watchlist,
  \<^verbatim>\<open>add_series\<close> creates an entry with status pending, 0 watched episodes,
  the cursor at season 1, episode 1, and as total the sum of the
  \<^verbatim>\<open>episodes_count\<close> of the seasons the series has at that moment (0 when it
  has none). Whatever seasons are added later, the stored entry is the same.
\<close>

theorem add_series_entry:
  assumes "get_series s sid = Some r" and "find_entry s uid ''series'' sid = None"
  shows "\<exists>e s'. add_series now s uid sid = Inr (e, s')
           \<and> status e = pending \<and> watched_episodes e = Some 0
           \<and> current_season e = Some 1 \<and> current_episode e = Some 1
           \<and> total_episodes e = Some (sum_list (map episodes_count (series_seasons s r)))
           \<and> (series_seasons s r = [] \<longrightarrow> total_episodes e = Some 0)
           \<and> find_entry s' uid ''series'' sid = Some e
           \<and> (\<forall>reqs. find_entry (add_seasons reqs s') uid ''series'' sid = Some e)"
proof -
  let ?e0 = "WatchEntry_init uid ''series'' sid pending
               (Some (sum_list (map episodes_count (series_seasons s r))))
               (Some 0) (Some 1) (Some 1)"
  obtain e s' where ins: "insert_entry now s ?e0 = (e, s')"
    by (cases "insert_entry now s ?e0")
  have run: "add_series now s uid sid = Inr (e, s')"
    using assms ins by (simp add: add_series_def Let_def)
  have fields: "status e = pending" "watched_episodes e = Some 0"
    "current_season e = Some 1" "current_episode e = Some 1"
    "total_episodes e = Some (sum_list (map episodes_count (series_seasons s r)))"
    using ins by (auto simp: insert_entry_def WatchEntry_init_def col_default_def Let_def)
  have found: "find_entry s' uid ''series'' sid = Some e"
    using assms(2) ins by (rule insert_entry_found) (simp_all add: WatchEntry_init_def)
  have later: "find_entry (add_seasons reqs s') uid ''series'' sid = Some e" for reqs
    using found by (simp add: find_entry_def)
  from run fields found later show ?thesis by auto
qed

theorem add_series_entry_witness:
  "\<exists>e s'. add_series 5 demo_store 7 1 = Inr (e, s')
     \<and> status e = pending \<and> watched_episodes e = Some 0
     \<and> current_season e = Some 1 \<and> current_episode e = Some 1
     \<and> total_episodes e = Some 18
     \<and> find_entry (add_seasons [(1, \<lparr>p_number = Some 3, p_episodes_count = Some 6\<rparr>)] s')
          7 ''series'' 1 = Some e"
proof -
  have a: "get_series demo_store 1 = Some demo_series"
    by (simp add: get_series_def demo_store_def demo_series_def)
  have b: "find_entry demo_store 7 ''series'' 1 = None"
    by (simp add: find_entry_def demo_store_def)
  have c: "sum_list (map episodes_count (series_seasons demo_store demo_series)) = 18"
    by (simp add: series_seasons_def demo_store_def demo_series_def)
  from add_series_entry [OF a b, of 5] show ?thesis
    unfolding c by blast
qed

section \<open>The user identifier\<close>

text \<open>
  C9, as the code has it. The decorator rejects with 401, before the route
  runs and with the store untouched, a request whose identifier is absent, is
  not the text of an integer (both are \<open>None\<close> here) or is 0. Every other
  integer, negative ones too, is passed to the route.
\<close>

theorem require_user_id_check:
  "(hdr = None \<or> hdr = Some 0 \<longrightarrow>
      require_user_id f hdr = Inl 401 \<and> endpoint s route hdr = (401, s))
   \<and> (hdr = Some n \<and> n \<noteq> 0 \<longrightarrow>
      require_user_id f hdr = Inr (f n) \<and> endpoint s route hdr = route n)"
  by (auto simp: require_user_id_def endpoint_def)

theorem require_user_id_check_witness:
  "add_movie_endpoint 0 demo_store None 1 = (401, demo_store)
   \<and> add_movie_endpoint 0 demo_store (Some 0) 1 = (401, demo_store)
   \<and> add_movie_endpoint 0 demo_store (Some 3) 1 = add_movie_to_watchlist 0 demo_store 3 1"
  using require_user_id_check [of None id demo_store
        "\<lambda>uid. add_movie_to_watchlist 0 demo_store uid 1" 3]
    require_user_id_check [of "Some 0" id demo_store
        "\<lambda>uid. add_movie_to_watchlist 0 demo_store uid 1" 3]
    require_user_id_check [of "Some 3" id demo_store
        "\<lambda>uid. add_movie_to_watchlist 0 demo_store uid 1" 3]
  by (simp add: add_movie_endpoint_def)

text \<open>The identifier \<open>-5\<close> is not a positive integer, and the request is served:
  the movie is added to the watchlist of user \<open>-5\<close>.\<close>

theorem negative_user_id_accepted:
  "fst (add_movie_endpoint 0 demo_store (Some (- 5)) 1) = 201
   \<and> fst (add_movie_endpoint 0 demo_store (Some (- 5)) 1) \<noteq> 401"
  by (simp add: add_movie_endpoint_def endpoint_def require_user_id_def
      add_movie_to_watchlist_def add_movie_def get_movie_def find_entry_def demo_store_def
      insert_entry_def Let_def)

section \<open>The progress update\<close>

lemma commit_entry_fields [simp]:
  "status (commit_entry now old e) = status e"
  "watched_episodes (commit_entry now old e) = watched_episodes e"
  "total_episodes (commit_entry now old e) = total_episodes e"
  "current_season (commit_entry now old e) = current_season e"
  "current_episode (commit_entry now old e) = current_episode e"
  "content_type (commit_entry now old e) = content_type e"
  "content_id (commit_entry now old e) = content_id e"
  "user_id (commit_entry now old e) = user_id e"
  "series_content_id (commit_entry now old e) = series_content_id e"
  by (simp_all add: commit_entry_def)

lemma commit_entry_stamped: "updated_at e = now \<Longrightarrow> commit_entry now old e = e"
  by (simp add: commit_entry_def)

lemma update_series_progress_alt:
  "update_series_progress parse now s uid sid p =
     (case find_entry s uid ''series'' sid of
        None \<Rightarrow> Inl (ValueError ''Entrada no encontrada en la watchlist.'')
      | Some entry \<Rightarrow>
          bind_err (apply_fields parse p entry) (\<lambda>e3.
          bind_err (set_status now s p e3) (\<lambda>e4.
          bind_err (recompute now s e4) (\<lambda>e5.
            Inr (commit_entry now entry e5,
                 s\<lparr>watch_entries :=
                      replace_first (entry_matches uid ''series'' sid)
                        (commit_entry now entry e5) (watch_entries s)\<rparr>)))))"
  by (simp add: update_series_progress_def apply_fields_def bind_err_def Let_def
      split: option.splits sum.splits)

lemma set_watched_episodes_ok:
  "converts parse (p ''watched_episodes'') \<Longrightarrow>
   set_watched_episodes parse p e = Inr (e\<lparr>watched_episodes := new_watched parse p e\<rparr>)"
  by (cases "p ''watched_episodes''"; cases "py_int parse (the (p ''watched_episodes''))")
     (simp_all add: converts_def set_watched_episodes_def new_watched_def bind_err_def)

lemma set_current_season_ok:
  "converts parse (p ''current_season'') \<Longrightarrow>
   set_current_season parse p e =
     Inr (e\<lparr>current_season := new_cursor parse (p ''current_season'') (current_season e)\<rparr>)"
  by (cases "p ''current_season''"; cases "py_int parse (the (p ''current_season''))")
     (simp_all add: converts_def set_current_season_def new_cursor_def bind_err_def)

lemma set_current_episode_ok:
  "converts parse (p ''current_episode'') \<Longrightarrow>
   set_current_episode parse p e =
     Inr (e\<lparr>current_episode := new_cursor parse (p ''current_episode'') (current_episode e)\<rparr>)"
  by (cases "p ''current_episode''"; cases "py_int parse (the (p ''current_episode''))")
     (simp_all add: converts_def set_current_episode_def new_cursor_def bind_err_def)

lemma apply_fields_ok:
  assumes "numeric_ok parse p"
  shows "apply_fields parse p e =
     Inr (e\<lparr>watched_episodes := new_watched parse p e,
            current_season := new_cursor parse (p ''current_season'') (current_season e),
            current_episode := new_cursor parse (p ''current_episode'') (current_episode e)\<rparr>)"
  using assms
  by (simp add: apply_fields_def numeric_ok_def set_watched_episodes_ok set_current_season_ok
      set_current_episode_ok bind_err_def)

lemma terminal_cursor_cong:
  assumes "series_content_id e' = series_content_id e" and "series s' = series s"
    and "seasons s' = seasons s"
  shows "terminal_cursor s' e' = terminal_cursor s e"
proof -
  have "get_series s' = get_series s"
    using assms(2) by (simp add: get_series_def fun_eq_iff)
  then have a: "series_content s' e' = series_content s e"
    using assms(1) by (simp add: series_content_def split: option.splits)
  have b: "series_seasons s' r = series_seasons s r" for r
    using assms by (simp add: series_seasons_def)
  show ?thesis
    unfolding terminal_cursor_def a b ..
qed

subsection \<open>The payload \<^verbatim>\<open>{"status": "watched"}\<close>\<close>

text \<open>
  C10. On a series entry whose \<^verbatim>\<open>total_episodes\<close> is 0 or unset, the payload
  \<^verbatim>\<open>{"status": "watched"}\<close> sets the status to watched and stamps
  \<^verbatim>\<open>updated_at\<close>; \<^verbatim>\<open>watched_episodes\<close>, \<^verbatim>\<open>current_season\<close> and
  \<^verbatim>\<open>current_episode\<close> stay as they were, whatever seasons the store holds
  for the series, and \<^verbatim>\<open>percentage_watched\<close> of the stored entry is 100.
\<close>

theorem status_watched_without_total:
  assumes "find_entry s uid ''series'' sid = Some e"
    and "total_episodes e = None \<or> total_episodes e = Some 0"
  shows "\<exists>e' s'. update_series_progress parse now s uid sid [''status'' \<mapsto> watched] = Inr (e', s')
           \<and> find_entry s' uid ''series'' sid = Some e'
           \<and> status e' = watched \<and> updated_at e' = now
           \<and> watched_episodes e' = watched_episodes e
           \<and> current_season e' = current_season e
           \<and> current_episode e' = current_episode e
           \<and> percentage_watched e' = 100"
proof -
  let ?p = "[''status'' \<mapsto> watched]"
  let ?e' = "e\<lparr>status := watched, updated_at := now\<rparr>"
  have ct: "content_type e = ''series''" and m: "entry_matches uid ''series'' sid e"
    using find_entry_SomeD [OF assms(1)] by (simp_all add: entry_matches_def)
  have nt: "\<not> truthy (total_episodes e)"
    using assms(2) by (auto simp: truthy_def)
  have ok: "numeric_ok parse ?p"
    by (simp add: numeric_ok_def converts_def)
  have f: "apply_fields parse ?p e = Inr e"
    by (simp add: apply_fields_ok [OF ok] new_watched_def new_cursor_def)
  have st: "set_status now s ?p e = Inr ?e'"
    using nt by (simp add: set_status_def mark_as_watched_series [OF ct])
  have rc: "recompute now s ?e' = Inr ?e'"
    by (simp add: recompute_def)
  have cm: "commit_entry now e ?e' = ?e'"
    by (rule commit_entry_stamped) simp
  have run: "update_series_progress parse now s uid sid ?p =
      Inr (?e', s\<lparr>watch_entries :=
                     replace_first (entry_matches uid ''series'' sid) ?e' (watch_entries s)\<rparr>)"
    using assms(1) by (simp add: update_series_progress_alt f st rc cm bind_err_def)
  have m': "entry_matches uid ''series'' sid ?e'"
    using m by (simp add: entry_matches_def)
  have found: "find_entry (s\<lparr>watch_entries :=
                     replace_first (entry_matches uid ''series'' sid) ?e' (watch_entries s)\<rparr>)
                 uid ''series'' sid = Some ?e'"
    using assms(1)
      replace_first_find [of "entry_matches uid ''series'' sid" ?e' "watch_entries s" e, OF m']
    by (simp add: find_entry_def)
  have pc: "percentage_watched ?e' = 100"
    by (simp add: percentage_watched_def)
  from run found pc show ?thesis by simp
qed

theorem status_watched_without_total_witness:
  "\<exists>e' s'. update_series_progress no_literal 9
       (with_entries [demo_entry watching (Some 1) (Some 4) (Some 3) (Some 0)]) 7 1
       [''status'' \<mapsto> watched] = Inr (e', s')
     \<and> status e' = watched \<and> updated_at e' = 9
     \<and> watched_episodes e' = Some 3 \<and> current_season e' = Some 1
     \<and> current_episode e' = Some 4 \<and> percentage_watched e' = 100"
proof -
  have a: "find_entry (with_entries [demo_entry watching (Some 1) (Some 4) (Some 3) (Some 0)])
             7 ''series'' 1 = Some (demo_entry watching (Some 1) (Some 4) (Some 3) (Some 0))"
    by (simp add: find_entry_def with_entries_def demo_entry_def entry_matches_def)
  have b: "total_episodes (demo_entry watching (Some 1) (Some 4) (Some 3) (Some 0)) = None
           \<or> total_episodes (demo_entry watching (Some 1) (Some 4) (Some 3) (Some 0)) = Some 0"
    by (simp add: demo_entry_def)
  from status_watched_without_total [OF a b, of no_literal 9] show ?thesis
    by (auto simp: demo_entry_def)
qed

text \<open>
  C1, as the code has it. On a series entry with a positive
  \<^verbatim>\<open>total_episodes\<close>, an update whose payload has
  \<^verbatim>\<open>status == "watched"\<close> and whose \<^verbatim>\<open>watched_episodes\<close>,
  \<^verbatim>\<open>current_season\<close> and \<^verbatim>\<open>current_episode\<close>, where present, are
  values that \<^verbatim>\<open>int\<close> accepts, succeeds and stores an entry with status
  watched, \<^verbatim>\<open>watched_episodes\<close> equal to the total whatever number the
  payload gave, and \<^verbatim>\<open>updated_at\<close> stamped. When the series of the entry
  has seasons, the cursor is on a season whose number is the highest, at its
  \<^verbatim>\<open>episodes_count\<close>.
\<close>

theorem status_watched_terminal:
  assumes "find_entry s uid ''series'' sid = Some e"
    and "total_episodes e = Some t" and "0 < t"
    and "p ''status'' = Some watched"
    and "numeric_ok parse p"
  shows "\<exists>e' s'. update_series_progress parse now s uid sid p = Inr (e', s')
           \<and> find_entry s' uid ''series'' sid = Some e'
           \<and> status e' = watched \<and> watched_episodes e' = Some t \<and> updated_at e' = now
           \<and> (\<forall>r. series_content s e = Some r \<longrightarrow> series_seasons s r \<noteq> [] \<longrightarrow>
                 (\<exists>y\<in>set (series_seasons s r).
                     (\<forall>z\<in>set (series_seasons s r). number z \<le> number y)
                     \<and> current_season e' = Some (number y)
                     \<and> current_episode e' = Some (episodes_count y)))"
proof -
  let ?e3 = "e\<lparr>watched_episodes := new_watched parse p e,
               current_season := new_cursor parse (p ''current_season'') (current_season e),
               current_episode := new_cursor parse (p ''current_episode'') (current_episode e)\<rparr>"
  have ct: "content_type e = ''series''" and m: "entry_matches uid ''series'' sid e"
    using find_entry_SomeD [OF assms(1)] by (simp_all add: entry_matches_def)
  have tr: "truthy (total_episodes ?e3)"
    using assms(2,3) by (simp add: truthy_def)
  have tc: "terminal_cursor s ?e3 = terminal_cursor s e"
    by (rule terminal_cursor_cong) simp_all
  obtain e4 where st: "set_status now s p ?e3 = Inr e4"
    and e4: "status e4 = watched" "watched_episodes e4 = Some t" "updated_at e4 = now"
      "entry_matches uid ''series'' sid e4"
      "case terminal_cursor s e of
         None \<Rightarrow> True
       | Some (m, c) \<Rightarrow> current_season e4 = Some m \<and> current_episode e4 = Some c"
    using assms(2,4) tr ct m
    by (cases "terminal_cursor s e")
       (auto simp: set_status_def mark_as_watched_series tc entry_matches_def)
  have rc: "recompute now s e4 = Inr e4"
    using e4(1) by (simp add: recompute_def)
  have cm: "commit_entry now e e4 = e4"
    using e4(3) by (rule commit_entry_stamped)
  let ?s' = "s\<lparr>watch_entries :=
                 replace_first (entry_matches uid ''series'' sid) e4 (watch_entries s)\<rparr>"
  have run: "update_series_progress parse now s uid sid p = Inr (e4, ?s')"
    using assms(1)
    by (simp add: update_series_progress_alt apply_fields_ok [OF assms(5)] st rc cm bind_err_def)
  have found: "find_entry ?s' uid ''series'' sid = Some e4"
    using assms(1)
      replace_first_find [of "entry_matches uid ''series'' sid" e4 "watch_entries s" e, OF e4(4)]
    by (simp add: find_entry_def)
  have cur: "\<exists>y\<in>set (series_seasons s r).
               (\<forall>z\<in>set (series_seasons s r). number z \<le> number y)
               \<and> current_season e4 = Some (number y)
               \<and> current_episode e4 = Some (episodes_count y)"
    if "series_content s e = Some r" and "series_seasons s r \<noteq> []" for r
  proof -
    from terminal_cursor_last [OF that] obtain y :: Season where
      y: "y \<in> set (series_seasons s r)"
        "terminal_cursor s e = Some (number y, episodes_count y)"
        "\<forall>z\<in>set (series_seasons s r). number z \<le> number y"
      by blast
    from e4(5) y(2) have "current_season e4 = Some (number y)"
      "current_episode e4 = Some (episodes_count y)" by simp_all
    with y(1,3) show ?thesis by blast
  qed
  from run found e4(1-3) cur show ?thesis by blast
qed

theorem status_watched_terminal_witness:
  "\<exists>e' s'. update_series_progress no_literal 9
       (with_entries [demo_entry watching (Some 1) (Some 4) (Some 3) (Some 18)]) 7 1
       [''status'' \<mapsto> watched, ''watched_episodes'' \<mapsto> JInt 5] = Inr (e', s')
     \<and> status e' = watched \<and> watched_episodes e' = Some 18 \<and> updated_at e' = 9
     \<and> current_season e' = Some 2 \<and> current_episode e' = Some 8"
proof -
  let ?e = "demo_entry watching (Some 1) (Some 4) (Some 3) (Some 18)"
  let ?s = "with_entries [?e]"
  let ?p = "[''status'' \<mapsto> watched, ''watched_episodes'' \<mapsto> JInt 5]"
  have a: "find_entry ?s 7 ''series'' 1 = Some ?e"
    by (simp add: find_entry_def with_entries_def demo_entry_def entry_matches_def)
  have b: "total_episodes ?e = Some 18" "(0::int) < 18"
    by (simp_all add: demo_entry_def)
  have c: "?p ''status'' = Some watched" by simp
  have d: "numeric_ok no_literal ?p"
    by (simp add: numeric_ok_def converts_def py_int_def)
  have sc: "series_content ?s ?e = Some demo_series"
    by (simp add: series_content_def get_series_def with_entries_def demo_store_def
        demo_entry_def demo_series_def)
  have ss: "series_seasons ?s demo_series =
      [\<lparr>season_id = 1, season_series_id = 1, number = 1, episodes_count = 10\<rparr>,
       \<lparr>season_id = 2, season_series_id = 1, number = 2, episodes_count = 8\<rparr>]"
    by (simp add: series_seasons_def with_entries_def demo_store_def demo_series_def)
  from status_watched_terminal [OF a b c d, of 9] obtain e' s' where
    run: "update_series_progress no_literal 9 ?s 7 1 ?p = Inr (e', s')"
    and f: "status e' = watched" "watched_episodes e' = Some 18" "updated_at e' = 9"
    and cur: "\<forall>r. series_content ?s ?e = Some r \<longrightarrow> series_seasons ?s r \<noteq> [] \<longrightarrow>
                 (\<exists>y\<in>set (series_seasons ?s r).
                     (\<forall>z\<in>set (series_seasons ?s r). number z \<le> number y)
                     \<and> current_season e' = Some (number y)
                     \<and> current_episode e' = Some (episodes_count y))"
    by blast
  from cur sc ss have "current_season e' = Some 2 \<and> current_episode e' = Some 8"
    by auto
  with run f show ?thesis by blast
qed

subsection \<open>The steps in closed form\<close>

lemma mark_as_watched_marked:
  "content_type e = ''series'' \<Longrightarrow> mark_as_watched now s e = Inr (marked now s e)"
  by (simp add: mark_as_watched_series marked_def)

lemma marked_fields [simp]:
  "status (marked now s e) = watched"
  "total_episodes (marked now s e) = total_episodes e"
  "content_type (marked now s e) = content_type e"
  "content_id (marked now s e) = content_id e"
  "user_id (marked now s e) = user_id e"
  "series_content_id (marked now s e) = series_content_id e"
  "updated_at (marked now s e) = now"
  "watched_episodes (marked now s e) =
     (if truthy (total_episodes e) then total_episodes e else watched_episodes e)"
  by (simp_all add: marked_def split: option.splits)

lemma marked_cursor:
  "current_season (marked now s e) =
     (if truthy (total_episodes e) then
        (case terminal_cursor s e of None \<Rightarrow> current_season e | Some (m, c) \<Rightarrow> Some m)
      else current_season e)"
  "current_episode (marked now s e) =
     (if truthy (total_episodes e) then
        (case terminal_cursor s e of None \<Rightarrow> current_episode e | Some (m, c) \<Rightarrow> Some c)
      else current_episode e)"
  by (simp_all add: marked_def split: option.splits)

lemma set_status_series:
  "content_type e = ''series'' \<Longrightarrow>
   set_status now s p e =
     Inr (case p ''status'' of
            None \<Rightarrow> e
          | Some v \<Rightarrow> if v = watched then marked now s e else e\<lparr>status := v\<rparr>)"
  by (simp add: set_status_def mark_as_watched_marked split: option.splits)

lemma recompute_series:
  "content_type e = ''series'' \<Longrightarrow>
   recompute now s e =
     (if status e = watched then Inr e
      else if or0 (total_episodes e) \<le> or0 (watched_episodes e) \<and> total_episodes e = None
        then Inl TypeError
      else if or0 (total_episodes e) \<le> or0 (watched_episodes e) \<and> 0 < or0 (total_episodes e)
        then Inr (marked now s e)
      else if 0 < or0 (watched_episodes e) then Inr (e\<lparr>status := watching\<rparr>)
      else Inr (e\<lparr>status := pending\<rparr>))"
  by (cases "total_episodes e")
     (simp_all add: recompute_def completed_def bind_err_def mark_as_watched_marked or0_def)

lemma fields_set_fields [simp]:
  "status (fields_set parse p e) = status e"
  "total_episodes (fields_set parse p e) = total_episodes e"
  "content_type (fields_set parse p e) = content_type e"
  "content_id (fields_set parse p e) = content_id e"
  "user_id (fields_set parse p e) = user_id e"
  "series_content_id (fields_set parse p e) = series_content_id e"
  "watched_episodes (fields_set parse p e) = new_watched parse p e"
  "current_season (fields_set parse p e) = new_cursor parse (p ''current_season'') (current_season e)"
  "current_episode (fields_set parse p e) = new_cursor parse (p ''current_episode'') (current_episode e)"
  by (simp_all add: fields_set_def)

lemma status_set_frame [simp]:
  "total_episodes (status_set now s p e) = total_episodes e"
  "content_type (status_set now s p e) = content_type e"
  "content_id (status_set now s p e) = content_id e"
  "user_id (status_set now s p e) = user_id e"
  "series_content_id (status_set now s p e) = series_content_id e"
  by (simp_all add: status_set_def split: option.splits)

text \<open>The run of an update whose conversions succeed, step by step.\<close>

lemma update_run:
  assumes found: "find_entry s uid ''series'' sid = Some e"
    and ok: "numeric_ok parse p"
    and rc: "recompute now s (status_set now s p (fields_set parse p e)) = Inr e5"
  shows "update_series_progress parse now s uid sid p =
           Inr (commit_entry now e e5,
                s\<lparr>watch_entries :=
                    replace_first (entry_matches uid ''series'' sid) (commit_entry now e e5)
                      (watch_entries s)\<rparr>)"
proof -
  have ct: "content_type (fields_set parse p e) = ''series''"
    using find_entry_SomeD [OF found] by simp
  have st: "set_status now s p (fields_set parse p e)
              = Inr (status_set now s p (fields_set parse p e))"
    by (simp add: set_status_series [OF ct] status_set_def)
  show ?thesis
    using found
    by (simp add: update_series_progress_alt apply_fields_ok [OF ok] fields_set_def [symmetric]
        st rc bind_err_def)
qed

lemma recompute_frame:
  assumes "content_type e = ''series''" and "recompute now s e = Inr e'"
  shows "user_id e' = user_id e \<and> content_type e' = content_type e
         \<and> content_id e' = content_id e \<and> total_episodes e' = total_episodes e
         \<and> series_content_id e' = series_content_id e"
  using assms(2) unfolding recompute_series [OF assms(1)]
  by (auto split: if_splits)

text \<open>A successful update went through the three steps without an error.\<close>

lemma update_InrD:
  assumes found: "find_entry s uid ''series'' sid = Some e"
    and run: "update_series_progress parse now s uid sid p = Inr (e', s')"
  shows "numeric_ok parse p"
    and "\<exists>e5. recompute now s (status_set now s p (fields_set parse p e)) = Inr e5
               \<and> e' = commit_entry now e e5"
    and "s' = s\<lparr>watch_entries :=
                   replace_first (entry_matches uid ''series'' sid) e' (watch_entries s)\<rparr>"
proof -
  have ct: "content_type e = ''series''"
    using find_entry_SomeD [OF found] by simp
  from found run obtain e3 e4 e5 where
    a: "apply_fields parse p e = Inr e3" and b: "set_status now s p e3 = Inr e4"
    and c: "recompute now s e4 = Inr e5" and d: "e' = commit_entry now e e5"
    and s': "s' = s\<lparr>watch_entries :=
                     replace_first (entry_matches uid ''series'' sid) e' (watch_entries s)\<rparr>"
    by (auto simp: update_series_progress_alt bind_err_def split: sum.splits)
  show ok: "numeric_ok parse p"
    using a
    by (auto simp: apply_fields_def set_watched_episodes_def set_current_season_def
        set_current_episode_def bind_err_def numeric_ok_def converts_def
        split: option.splits sum.splits)
  have e3: "e3 = fields_set parse p e"
    using a by (simp add: apply_fields_ok [OF ok] fields_set_def)
  have e4: "e4 = status_set now s p e3"
    using b ct by (simp add: set_status_series e3 status_set_def)
  show "\<exists>e5. recompute now s (status_set now s p (fields_set parse p e)) = Inr e5
               \<and> e' = commit_entry now e e5"
    using c d e3 e4 by auto
  show "s' = s\<lparr>watch_entries :=
                   replace_first (entry_matches uid ''series'' sid) e' (watch_entries s)\<rparr>"
    by (rule s')
qed

lemma update_stored:
  assumes found: "find_entry s uid ''series'' sid = Some e"
    and run: "update_series_progress parse now s uid sid p = Inr (e', s')"
  shows "find_entry s' uid ''series'' sid = Some e'
         \<and> total_episodes e' = total_episodes e
         \<and> series_content_id e' = series_content_id e
         \<and> movies s' = movies s \<and> series s' = series s \<and> seasons s' = seasons s"
proof -
  have m: "entry_matches uid ''series'' sid e" and ct: "content_type e = ''series''"
    using find_entry_SomeD [OF found] by (simp_all add: entry_matches_def)
  from update_InrD(2) [OF found run] obtain e5 where
    c: "recompute now s (status_set now s p (fields_set parse p e)) = Inr e5"
    and d: "e' = commit_entry now e e5" by blast
  note s' = update_InrD(3) [OF found run]
  have ct4: "content_type (status_set now s p (fields_set parse p e)) = ''series''"
    using ct by simp
  note f5 = recompute_frame [OF ct4 c]
  have m': "entry_matches uid ''series'' sid e'"
    using m f5 by (simp add: d entry_matches_def)
  have "find_entry s' uid ''series'' sid = Some e'"
    using found
      replace_first_find [of "entry_matches uid ''series'' sid" e' "watch_entries s" e, OF m']
    by (subst s') (simp add: find_entry_def)
  moreover have "movies s' = movies s \<and> series s' = series s \<and> seasons s' = seasons s"
    by (subst s', simp)+
  ultimately show ?thesis using f5 by (simp add: d)
qed

subsection \<open>Clamping of \<^verbatim>\<open>watched_episodes\<close>\<close>

text \<open>
  C3, as the code has it. When the payload has a \<^verbatim>\<open>watched_episodes\<close> that
  \<^verbatim>\<open>int\<close> accepts, the update succeeds and stores that value clamped as
  \<^verbatim>\<open>max(0, min(value, total_episodes or 0))\<close>, unless the payload also has
  \<^verbatim>\<open>status == "watched"\<close> and the total is neither unset nor 0: then
  \<^verbatim>\<open>mark_as_watched\<close> stores the total. An entry with an unset total is
  covered where the recomputation does not run.
\<close>

theorem watched_episodes_clamped:
  assumes found: "find_entry s uid ''series'' sid = Some e"
    and key: "p ''watched_episodes'' = Some v" and conv: "py_int parse v = Inr w"
    and ok: "numeric_ok parse p"
    and tot: "total_episodes e = None \<longrightarrow>
                p ''status'' = Some watched \<or> (p ''status'' = None \<and> status e = watched)"
  shows "\<exists>e' s'. update_series_progress parse now s uid sid p = Inr (e', s')
           \<and> find_entry s' uid ''series'' sid = Some e'
           \<and> watched_episodes e' =
               (if p ''status'' = Some watched \<and> truthy (total_episodes e)
                then total_episodes e
                else Some (max 0 (min w (or0 (total_episodes e)))))"
proof -
  let ?e3 = "fields_set parse p e"
  let ?e4 = "status_set now s p ?e3"
  let ?c = "max 0 (min w (or0 (total_episodes e)))"
  let ?goal = "if p ''status'' = Some watched \<and> truthy (total_episodes e)
                then total_episodes e else Some ?c"
  have w3: "watched_episodes ?e3 = Some ?c"
    by (simp add: new_watched_def key conv)
  have ct4: "content_type ?e4 = ''series''"
    using find_entry_SomeD [OF found] by simp
  have "\<exists>e5. recompute now s ?e4 = Inr e5 \<and> watched_episodes e5 = ?goal"
  proof (cases "p ''status'' = Some watched")
    case True
    then have e4: "?e4 = marked now s ?e3" by (simp add: status_set_def)
    show ?thesis
      using True w3 unfolding e4 by (simp add: recompute_def)
  next
    case False
    then have e4: "?e4 = ?e3\<lparr>status := (case p ''status'' of None \<Rightarrow> status e | Some v \<Rightarrow> v)\<rparr>"
      by (simp add: status_set_def fields_set_def split: option.splits)
    show ?thesis
    proof (cases "status ?e4 = watched")
      case True
      with False w3 show ?thesis
        by (simp add: recompute_def e4)
    next
      case nw: False
      with False tot obtain t where t: "total_episodes e = Some t"
        by (cases "total_episodes e") (auto simp: e4 split: option.splits)
      show ?thesis
        unfolding recompute_series [OF ct4]
        using nw False w3 t
        by (auto simp: e4 or0_def truthy_def)
    qed
  qed
  then obtain e5 where rc: "recompute now s ?e4 = Inr e5" and w5: "watched_episodes e5 = ?goal"
    by blast
  note run = update_run [OF found ok rc]
  from update_stored [OF found run] run w5 show ?thesis by simp
qed

theorem watched_episodes_clamped_witness:
  "\<exists>e' s'. update_series_progress no_literal 9
       (with_entries [demo_entry pending (Some 1) (Some 1) (Some 0) (Some 18)]) 7 1
       [''watched_episodes'' \<mapsto> JInt (- 4)] = Inr (e', s')
     \<and> watched_episodes e' = Some 0"
proof -
  let ?e = "demo_entry pending (Some 1) (Some 1) (Some 0) (Some 18)"
  let ?p = "[''watched_episodes'' \<mapsto> JInt (- 4)]"
  have a: "find_entry (with_entries [?e]) 7 ''series'' 1 = Some ?e"
    by (simp add: find_entry_def with_entries_def demo_entry_def entry_matches_def)
  have b: "?p ''watched_episodes'' = Some (JInt (- 4))" by simp
  have c: "py_int no_literal (JInt (- 4)) = Inr (- 4)" by (simp add: py_int_def)
  have d: "numeric_ok no_literal ?p"
    by (simp add: numeric_ok_def converts_def py_int_def)
  have e: "total_episodes ?e = None \<longrightarrow>
             ?p ''status'' = Some watched \<or> (?p ''status'' = None \<and> status ?e = watched)"
    by (simp add: demo_entry_def)
  from watched_episodes_clamped [OF a b c d e, of 9] obtain e' s' where
    run: "update_series_progress no_literal 9 (with_entries [?e]) 7 1 ?p = Inr (e', s')"
    and w: "watched_episodes e' =
              (if ?p ''status'' = Some watched \<and> truthy (total_episodes ?e)
               then total_episodes ?e
               else Some (max 0 (min (- 4) (or0 (total_episodes ?e)))))"
    by blast
  from w have "watched_episodes e' = Some 0"
    by (simp add: demo_entry_def or0_def)
  with run show ?thesis by blast
qed

text \<open>
  With 18 episodes in total, the payload
  \<^verbatim>\<open>{"watched_episodes": 3, "status": "watched"}\<close> stores 18 watched
  episodes, not 3, which is what clamping 3 to the range from 0 to 18 gives.
\<close>

theorem watched_episodes_overridden:
  "update_series_progress no_literal 9
       (with_entries [demo_entry pending (Some 1) (Some 1) (Some 0) (Some 18)]) 7 1
       [''watched_episodes'' \<mapsto> JInt 3, ''status'' \<mapsto> watched]
     = Inr ((demo_entry watched (Some 2) (Some 8) (Some 18) (Some 18))\<lparr>updated_at := 9\<rparr>,
            with_entries [(demo_entry watched (Some 2) (Some 8) (Some 18) (Some 18))\<lparr>updated_at := 9\<rparr>])
   \<and> Some (18::int) \<noteq> Some (max 0 (min 3 18))"
proof -
  let ?e = "demo_entry pending (Some 1) (Some 1) (Some 0) (Some 18)"
  let ?s = "with_entries [?e]"
  let ?p = "[''watched_episodes'' \<mapsto> JInt 3, ''status'' \<mapsto> watched]"
  let ?e' = "(demo_entry watched (Some 2) (Some 8) (Some 18) (Some 18))\<lparr>updated_at := 9\<rparr>"
  have a: "find_entry ?s 7 ''series'' 1 = Some ?e"
    by (simp add: find_entry_def with_entries_def demo_entry_def entry_matches_def)
  have d: "numeric_ok no_literal ?p"
    by (simp add: numeric_ok_def converts_def py_int_def)
  have tc: "terminal_cursor ?s (fields_set no_literal ?p ?e) = Some (2, 8)"
    by (simp add: terminal_cursor_def series_content_def get_series_def series_seasons_def
        with_entries_def demo_store_def demo_entry_def)
  have m: "status_set 9 ?s ?p (fields_set no_literal ?p ?e) = ?e'"
    by (simp add: status_set_def marked_def tc truthy_def)
       (simp add: fields_set_def demo_entry_def)
  have rc: "recompute 9 ?s (status_set 9 ?s ?p (fields_set no_literal ?p ?e)) = Inr ?e'"
    unfolding m by (simp add: recompute_def demo_entry_def)
  have cm: "commit_entry 9 ?e ?e' = ?e'"
    by (rule commit_entry_stamped) simp
  from update_run [OF a d rc] show ?thesis
    unfolding cm by (simp add: with_entries_def entry_matches_def demo_entry_def)
qed

subsection \<open>The recomputation on an unset total\<close>

text \<open>
  No operation stores an entry whose \<^verbatim>\<open>total_episodes\<close> is unset: the
  column is nullable, and such a row has to come from outside. On one with 3
  watched episodes and status pending, under a payload that only moves the
  cursor, the test of the recomputation passes its left side
  (\<^verbatim>\<open>3 >= (None or 0)\<close>) and then evaluates \<^verbatim>\<open>None > 0\<close>: the service
  raises TypeError, the route answers 500 and nothing is stored.
\<close>

lemma recompute_unset_total_raises:
  "update_series_progress no_literal 9
       (with_entries [demo_entry pending (Some 1) (Some 1) (Some 3) None]) 7 1
       [''current_season'' \<mapsto> JInt 2] = Inl TypeError
   \<and> update_series_progress_route no_literal 9
       (with_entries [demo_entry pending (Some 1) (Some 1) (Some 3) None]) 7 1
       [''current_season'' \<mapsto> JInt 2]
     = (500, with_entries [demo_entry pending (Some 1) (Some 1) (Some 3) None])"
proof -
  let ?e = "demo_entry pending (Some 1) (Some 1) (Some 3) None"
  let ?s = "with_entries [?e]"
  let ?p = "[''current_season'' \<mapsto> JInt 2]"
  have a: "find_entry ?s 7 ''series'' 1 = Some ?e"
    by (simp add: find_entry_def with_entries_def demo_entry_def entry_matches_def)
  have d: "numeric_ok no_literal ?p"
    by (simp add: numeric_ok_def converts_def py_int_def)
  have f: "apply_fields no_literal ?p ?e = Inr (?e\<lparr>current_season := Some 2\<rparr>)"
    by (simp add: apply_fields_ok [OF d] new_watched_def new_cursor_def py_int_def)
  have st: "set_status 9 ?s ?p (?e\<lparr>current_season := Some 2\<rparr>) = Inr (?e\<lparr>current_season := Some 2\<rparr>)"
    by (simp add: set_status_def)
  have rc: "recompute 9 ?s (?e\<lparr>current_season := Some 2\<rparr>) = Inl TypeError"
    by (simp add: recompute_def completed_def bind_err_def or0_def demo_entry_def)
  have run: "update_series_progress no_literal 9 ?s 7 1 ?p = Inl TypeError"
    by (simp add: update_series_progress_alt a f st rc bind_err_def)
  then show ?thesis
    by (simp add: update_series_progress_route_def)
qed

section \<open>Applying an update twice\<close>

lemma new_cursor_idem [simp]:
  "new_cursor parse x (new_cursor parse x old) = new_cursor parse x old"
  "new_cursor parse None old = old"
  by (simp_all add: new_cursor_def split: option.splits sum.splits)

lemma new_watched_cases:
  assumes "numeric_ok parse p"
  shows "(\<forall>y. new_watched parse p y = watched_episodes y)
         \<or> (\<exists>w. \<forall>y. new_watched parse p y = Some (max 0 (min w (or0 (total_episodes y)))))"
proof (cases "p ''watched_episodes''")
  case None
  then show ?thesis by (simp add: new_watched_def)
next
  case (Some v)
  with assms obtain w where "py_int parse v = Inr w"
    by (cases "py_int parse v") (auto simp: numeric_ok_def converts_def)
  with Some show ?thesis by (auto simp: new_watched_def)
qed

lemma marked_terminal_cursor [simp]:
  "terminal_cursor s (marked now s' e) = terminal_cursor s e"
  "terminal_cursor s (fields_set parse p e) = terminal_cursor s e"
  "terminal_cursor s (commit_entry now old e) = terminal_cursor s e"
  "terminal_cursor s (e\<lparr>status := v\<rparr>) = terminal_cursor s e"
  by (rule terminal_cursor_cong; simp)+

lemma or0_simps [simp]: "or0 None = 0" "or0 (Some x) = x"
  by (simp_all add: or0_def)

lemma truthy_simps [simp]: "truthy None = False" "truthy (Some x) = (x \<noteq> 0)"
  by (simp_all add: truthy_def)

lemma demo_terminal_cursor:
  "series_content_id e = Some 1 \<Longrightarrow> terminal_cursor (with_entries es) e = Some (2, 8)"
  by (simp add: terminal_cursor_def series_content_def get_series_def series_seasons_def
      with_entries_def demo_store_def)

lemma demo_find_entry:
  "find_entry (with_entries [(demo_entry st cs ce wat tot)\<lparr>updated_at := u\<rparr>]) 7 ''series'' 1
     = Some ((demo_entry st cs ce wat tot)\<lparr>updated_at := u\<rparr>)"
  "find_entry (with_entries [demo_entry st cs ce wat tot]) 7 ''series'' 1
     = Some (demo_entry st cs ce wat tot)"
  by (simp_all add: find_entry_def with_entries_def demo_entry_def entry_matches_def)

text \<open>
  C5, as the code has it. When an update succeeds, the same update applied to
  the store it left succeeds too, and stores the same status and the same
  \<^verbatim>\<open>watched_episodes\<close>. The cursor is the same as well when the payload
  has a status, or has neither \<^verbatim>\<open>current_season\<close> nor
  \<^verbatim>\<open>current_episode\<close>, or the entry was watched before the first update,
  or is not watched after it.
\<close>

theorem update_twice:
  assumes found: "find_entry s uid ''series'' sid = Some e"
    and run: "update_series_progress parse now s uid sid p = Inr (e1, s1)"
  shows "\<exists>e2 s2. update_series_progress parse now' s1 uid sid p = Inr (e2, s2)
           \<and> status e2 = status e1
           \<and> watched_episodes e2 = watched_episodes e1
           \<and> (p ''status'' \<noteq> None
                \<or> (p ''current_season'' = None \<and> p ''current_episode'' = None)
                \<or> status e = watched \<or> status e1 \<noteq> watched
               \<longrightarrow> current_season e2 = current_season e1
                   \<and> current_episode e2 = current_episode e1)"
proof -
  let ?F = "fields_set parse p"
  have ct: "content_type e = ''series''"
    using find_entry_SomeD [OF found] by simp
  note ok = update_InrD(1) [OF found run]
  from update_InrD(2) [OF found run] obtain e5 where
    rc: "recompute now s (status_set now s p (?F e)) = Inr e5"
    and e1: "e1 = commit_entry now e e5" by blast
  note st = update_stored [OF found run]
  then have found1: "find_entry s1 uid ''series'' sid = Some e1" by simp
  have ct1: "content_type e1 = ''series''"
    using find_entry_SomeD [OF found1] by simp
  have tc: "terminal_cursor s1 y = terminal_cursor s y" for y
    using st by (intro terminal_cursor_cong) simp_all
  have mk: "marked now' s1 y = (marked now s y)\<lparr>updated_at := now'\<rparr>" for y
    by (simp add: marked_def tc split: option.splits)
  have ct4: "content_type (status_set now s p (?F e)) = ''series''"
    "content_type (status_set now' s1 p (?F e1)) = ''series''"
    using ct ct1 by simp_all
  note nw = new_watched_cases [OF ok]
  have "\<exists>e5'. recompute now' s1 (status_set now' s1 p (?F e1)) = Inr e5'
          \<and> status e5' = status e5 \<and> watched_episodes e5' = watched_episodes e5
          \<and> (p ''status'' \<noteq> None
                \<or> (p ''current_season'' = None \<and> p ''current_episode'' = None)
                \<or> status e = watched \<or> status e5 \<noteq> watched
               \<longrightarrow> current_season e5' = current_season e5
                   \<and> current_episode e5' = current_episode e5)"
  proof -
    have tce: "terminal_cursor s1 y = terminal_cursor s e"
      if "series_content_id y = series_content_id e" for y
      using st that by (intro terminal_cursor_cong) simp_all
    have sc1: "series_content_id e1 = series_content_id e" using st by simp
    have tot1: "total_episodes e1 = total_episodes e" using st by simp
    have nw': "(new_watched parse p e = watched_episodes e
                \<and> new_watched parse p e1 = watched_episodes e1)
               \<or> (\<exists>w. new_watched parse p e = Some (max 0 (min w (or0 (total_episodes e))))
                    \<and> new_watched parse p e1 = Some (max 0 (min w (or0 (total_episodes e)))))"
      using nw tot1 by metis
    consider (A) "p ''status'' = Some watched"
      | (B) v where "p ''status'' = Some v" "v \<noteq> watched"
      | (C) "p ''status'' = None" "status e = watched"
      | (D) "p ''status'' = None" "status e \<noteq> watched"
      by (cases "p ''status''") auto
    then show ?thesis
    proof cases
      case A
      have x: "status_set now s p (?F e) = marked now s (?F e)"
        and x': "status_set now' s1 p (?F e1) = marked now' s1 (?F e1)"
        using A by (simp_all add: status_set_def)
      from rc have e5: "e5 = marked now s (?F e)"
        by (simp add: x recompute_def)
      show ?thesis
        unfolding x' using nw
        by (auto simp: recompute_def e5 e1 marked_cursor tce sc1 tot1 split: option.splits)
    next
      case B
      have x: "status_set now s p (?F e) = (?F e)\<lparr>status := v\<rparr>"
        and x': "status_set now' s1 p (?F e1) = (?F e1)\<lparr>status := v\<rparr>"
        using B by (simp_all add: status_set_def)
      have r: "recompute now s ((?F e)\<lparr>status := v\<rparr>) = Inr e5"
        using rc by (simp add: x)
      show ?thesis
        unfolding x' using r nw' B(2)
        by (cases "total_episodes e"; cases "terminal_cursor s e")
           (auto simp: recompute_series ct ct1 e1 marked_cursor tce sc1 tot1
            split: if_splits)
    next
      case C
      have x: "status_set now s p (?F e) = ?F e"
        and x': "status_set now' s1 p (?F e1) = ?F e1"
        using C by (simp_all add: status_set_def)
      from rc C have e5: "e5 = ?F e"
        by (simp add: x recompute_def)
      show ?thesis
        unfolding x' using nw C
        by (auto simp: recompute_def e5 e1 tot1)
    next
      case D
      have x: "status_set now s p (?F e) = ?F e"
        and x': "status_set now' s1 p (?F e1) = ?F e1"
        using D by (simp_all add: status_set_def)
      have r: "recompute now s (?F e) = Inr e5"
        using rc by (simp add: x)
      show ?thesis
        unfolding x' using r nw' D
        by (cases "total_episodes e"; cases "terminal_cursor s e")
           (auto simp: recompute_series ct ct1 e1 marked_cursor tce sc1 tot1
            split: if_splits)
    qed
  qed
  then obtain e5' where rc': "recompute now' s1 (status_set now' s1 p (?F e1)) = Inr e5'"
    and eq: "status e5' = status e5" "watched_episodes e5' = watched_episodes e5"
      "p ''status'' \<noteq> None
                \<or> (p ''current_season'' = None \<and> p ''current_episode'' = None)
                \<or> status e = watched \<or> status e5 \<noteq> watched
               \<longrightarrow> current_season e5' = current_season e5
                   \<and> current_episode e5' = current_episode e5"
    by blast
  note run2 = update_run [OF found1 ok rc']
  show ?thesis
    using run2 eq by (simp add: e1)
qed

theorem update_twice_witness:
  "\<exists>e2 s2. update_series_progress no_literal 10
       (with_entries [(demo_entry watching (Some 1) (Some 1) (Some 5) (Some 18))\<lparr>updated_at := 9\<rparr>])
       7 1 [''watched_episodes'' \<mapsto> JInt 5] = Inr (e2, s2)
     \<and> status e2 = watching \<and> watched_episodes e2 = Some 5
     \<and> current_season e2 = Some 1 \<and> current_episode e2 = Some 1"
proof -
  let ?e = "demo_entry pending (Some 1) (Some 1) (Some 0) (Some 18)"
  let ?e1 = "(demo_entry watching (Some 1) (Some 1) (Some 5) (Some 18))\<lparr>updated_at := 9\<rparr>"
  let ?p = "[''watched_episodes'' \<mapsto> JInt 5]"
  have a: "find_entry (with_entries [?e]) 7 ''series'' 1 = Some ?e"
    by (rule demo_find_entry)
  have d: "numeric_ok no_literal ?p"
    by (simp add: numeric_ok_def converts_def py_int_def)
  have rc: "recompute 9 (with_entries [?e]) (status_set 9 (with_entries [?e]) ?p
              (fields_set no_literal ?p ?e))
            = Inr (demo_entry watching (Some 1) (Some 1) (Some 5) (Some 18))"
    by (simp add: status_set_def fields_set_def new_watched_def new_cursor_def py_int_def
        recompute_def completed_def bind_err_def or0_def demo_entry_def)
  have cm: "commit_entry 9 ?e (demo_entry watching (Some 1) (Some 1) (Some 5) (Some 18)) = ?e1"
    by (simp add: commit_entry_def demo_entry_def)
  have run: "update_series_progress no_literal 9 (with_entries [?e]) 7 1 ?p
               = Inr (?e1, with_entries [?e1])"
    using update_run [OF a d rc] unfolding cm
    by (simp add: with_entries_def entry_matches_def demo_entry_def)
  from update_twice [OF a run, of 10] show ?thesis
    by (simp add: demo_entry_def)
qed

text \<open>
  The series has 18 episodes in seasons 1 (10 episodes) and 2 (8 episodes). The
  payload \<^verbatim>\<open>{"watched_episodes": 18, "current_season": 1}\<close> on a pending
  entry completes the series: the recomputation marks it watched and moves the
  cursor to season 2. Applied again, the payload puts the cursor back on
  season 1, and the recomputation does not run on a watched entry: the cursor
  after two applications is not the one after one.
\<close>

theorem update_twice_cursor_differs:
  "update_series_progress no_literal 9
       (with_entries [demo_entry pending (Some 1) (Some 1) (Some 0) (Some 18)]) 7 1
       [''watched_episodes'' \<mapsto> JInt 18, ''current_season'' \<mapsto> JInt 1]
     = Inr ((demo_entry watched (Some 2) (Some 8) (Some 18) (Some 18))\<lparr>updated_at := 9\<rparr>,
            with_entries [(demo_entry watched (Some 2) (Some 8) (Some 18) (Some 18))\<lparr>updated_at := 9\<rparr>])
   \<and> update_series_progress no_literal 10
       (with_entries [(demo_entry watched (Some 2) (Some 8) (Some 18) (Some 18))\<lparr>updated_at := 9\<rparr>]) 7 1
       [''watched_episodes'' \<mapsto> JInt 18, ''current_season'' \<mapsto> JInt 1]
     = Inr ((demo_entry watched (Some 1) (Some 8) (Some 18) (Some 18))\<lparr>updated_at := 10\<rparr>,
            with_entries [(demo_entry watched (Some 1) (Some 8) (Some 18) (Some 18))\<lparr>updated_at := 10\<rparr>])
   \<and> current_season ((demo_entry watched (Some 2) (Some 8) (Some 18) (Some 18))\<lparr>updated_at := 9\<rparr>)
       \<noteq> current_season ((demo_entry watched (Some 1) (Some 8) (Some 18) (Some 18))\<lparr>updated_at := 10\<rparr>)"
proof -
  let ?e = "demo_entry pending (Some 1) (Some 1) (Some 0) (Some 18)"
  let ?e1 = "(demo_entry watched (Some 2) (Some 8) (Some 18) (Some 18))\<lparr>updated_at := 9\<rparr>"
  let ?e2 = "(demo_entry watched (Some 1) (Some 8) (Some 18) (Some 18))\<lparr>updated_at := 10\<rparr>"
  let ?p = "[''watched_episodes'' \<mapsto> JInt 18, ''current_season'' \<mapsto> JInt 1]"
  have d: "numeric_ok no_literal ?p"
    by (simp add: numeric_ok_def converts_def py_int_def)
  have f: "fields_set no_literal ?p ?e = demo_entry pending (Some 1) (Some 1) (Some 18) (Some 18)"
    by (simp add: fields_set_def new_watched_def new_cursor_def py_int_def or0_def demo_entry_def)
  have ct: "content_type (demo_entry pending (Some 1) (Some 1) (Some 18) (Some 18)) = ''series''"
    by (simp add: demo_entry_def)
  have tc: "terminal_cursor (with_entries [?e])
              (demo_entry pending (Some 1) (Some 1) (Some 18) (Some 18)) = Some (2, 8)"
    by (rule demo_terminal_cursor) (simp add: demo_entry_def)
  have rc: "recompute 9 (with_entries [?e]) (status_set 9 (with_entries [?e]) ?p
              (fields_set no_literal ?p ?e)) = Inr ?e1"
    unfolding f
    by (simp add: status_set_def recompute_series [OF ct] marked_def tc)
       (simp add: demo_entry_def)
  have cm: "commit_entry 9 ?e ?e1 = ?e1"
    by (rule commit_entry_stamped) simp
  have run1: "update_series_progress no_literal 9 (with_entries [?e]) 7 1 ?p
               = Inr (?e1, with_entries [?e1])"
    using update_run [OF demo_find_entry(2) d rc] unfolding cm
    by (simp add: with_entries_def entry_matches_def demo_entry_def)
  have rc2: "recompute 10 (with_entries [?e1]) (status_set 10 (with_entries [?e1]) ?p
              (fields_set no_literal ?p ?e1))
             = Inr ((demo_entry watched (Some 1) (Some 8) (Some 18) (Some 18))\<lparr>updated_at := 9\<rparr>)"
    by (simp add: status_set_def fields_set_def new_watched_def new_cursor_def py_int_def
        recompute_def or0_def demo_entry_def)
  have cm2: "commit_entry 10 ?e1
               ((demo_entry watched (Some 1) (Some 8) (Some 18) (Some 18))\<lparr>updated_at := 9\<rparr>) = ?e2"
    by (simp add: commit_entry_def demo_entry_def)
  have run2: "update_series_progress no_literal 10 (with_entries [?e1]) 7 1 ?p
               = Inr (?e2, with_entries [?e2])"
    using update_run [OF demo_find_entry(1) d rc2] unfolding cm2
    by (simp add: with_entries_def entry_matches_def demo_entry_def)
  have ne: "current_season ?e1 \<noteq> current_season ?e2"
    by (simp add: demo_entry_def)
  from run1 run2 ne show ?thesis by blast
qed

section \<open>The percentage\<close>

text \<open>\<^verbatim>\<open>round(x, 2)\<close> is one of the two hundredths around \<open>x\<close>, the lower
  one when \<open>x\<close> is less than half a hundredth above it.\<close>

lemma py_round2_cases:
  obtains f :: int where "of_int f \<le> x * 100" and "x * 100 < of_int f + 1"
    and "py_round2 x = of_int f / 100 \<or> py_round2 x = of_int (f + 1) / 100"
    and "x * 100 - of_int f < 1 / 2 \<longrightarrow> py_round2 x = of_int f / 100"
proof -
  define f where "f = \<lfloor>x * 100\<rfloor>"
  have a: "of_int f \<le> x * 100" and b: "x * 100 < of_int f + 1"
    unfolding f_def by linarith+
  have c: "py_round2 x = of_int f / 100 \<or> py_round2 x = of_int (f + 1) / 100"
    unfolding py_round2_def Let_def f_def [symmetric] by simp
  have d: "x * 100 - of_int f < 1 / 2 \<longrightarrow> py_round2 x = of_int f / 100"
    unfolding py_round2_def Let_def f_def [symmetric] by simp
  from a b c d that show thesis by blast
qed

lemma py_round2_range:
  assumes "0 \<le> x" and "x \<le> 100"
  shows "0 \<le> py_round2 x \<and> py_round2 x \<le> 100"
proof -
  obtain f :: int where a: "of_int f \<le> x * 100" and b: "x * 100 < of_int f + 1"
    and c: "py_round2 x = of_int f / 100 \<or> py_round2 x = of_int (f + 1) / 100"
    and d: "x * 100 - of_int f < 1 / 2 \<longrightarrow> py_round2 x = of_int f / 100"
    by (rule py_round2_cases)
  have "(0::rat) < of_int f + 1" using assms(1) b by linarith
  then have "(0::rat) < of_int (f + 1)" by simp
  then have f0: "0 \<le> f" unfolding of_int_0_less_iff by simp
  have "(of_int f :: rat) \<le> of_int 10000" using assms(2) a by simp
  then have f1: "f \<le> 10000" unfolding of_int_le_iff .
  have lo: "0 \<le> py_round2 x"
    using c f0 by auto
  have hi: "py_round2 x \<le> 100"
  proof (cases "f = 10000")
    case True
    with assms(2) have "x * 100 - of_int f < 1 / 2" by simp
    with d True show ?thesis by simp
  next
    case False
    with f1 have "f + 1 \<le> 10000" by simp
    then have "(of_int (f + 1) :: rat) \<le> of_int 10000" "(of_int f :: rat) \<le> of_int 10000"
      unfolding of_int_le_iff by simp_all
    with c show ?thesis by auto
  qed
  from lo hi show ?thesis ..
qed

lemma py_round2_below:
  assumes "x < 99995 / 1000"
  shows "py_round2 x < 100"
proof -
  obtain f :: int where a: "of_int f \<le> x * 100" and b: "x * 100 < of_int f + 1"
    and c: "py_round2 x = of_int f / 100 \<or> py_round2 x = of_int (f + 1) / 100"
    and d: "x * 100 - of_int f < 1 / 2 \<longrightarrow> py_round2 x = of_int f / 100"
    by (rule py_round2_cases)
  have y: "x * 100 < 19999 / 2" using assms by simp
  with a have "(of_int f :: rat) < of_int 10000" by simp
  then have f1: "f < 10000" unfolding of_int_less_iff .
  show ?thesis
  proof (cases "f = 9999")
    case True
    with y have "x * 100 - of_int f < 1 / 2" by simp
    with d True show ?thesis by simp
  next
    case False
    with f1 have "f + 1 < 10000" by simp
    then have "(of_int (f + 1) :: rat) < of_int 10000" "(of_int f :: rat) < of_int 10000"
      unfolding of_int_less_iff by simp_all
    with c show ?thesis by auto
  qed
qed

lemma py_round2_100 [simp]: "py_round2 100 = 100"
  by (simp add: py_round2_def Let_def)

lemma py_round2_99_999: "py_round2 (of_int 99999 / of_int 100000 * 100) = 100"
proof -
  have fl: "\<lfloor>(of_int 99999 / of_int 100000 * 100 :: rat) * 100\<rfloor> = 9999"
    by (simp add: floor_eq_iff)
  show ?thesis
    unfolding py_round2_def Let_def fl by simp
qed

lemma py_round2_5_18: "py_round2 (of_int 5 / of_int 18 * 100) = 2778 / 100"
proof -
  have fl: "\<lfloor>(of_int 5 / of_int 18 * 100 :: rat) * 100\<rfloor> = 2777"
    by (simp add: floor_eq_iff)
  show ?thesis
    unfolding py_round2_def Let_def fl by simp
qed

lemma percentage_of_progress_ok:
  assumes "progress_ok e"
  shows "0 \<le> percentage_watched e \<and> percentage_watched e \<le> 100
         \<and> (status e = watched \<longrightarrow> percentage_watched e = 100)
         \<and> (status e \<noteq> watched \<and> 0 \<le> or0 (total_episodes e)
              \<and> or0 (total_episodes e) < 20000 \<longrightarrow> percentage_watched e < 100)"
proof (cases "status e = watched")
  case True
  then show ?thesis by (simp add: percentage_watched_def)
next
  case False
  from assms obtain t w where t: "total_episodes e = Some t" and w: "watched_episodes e = Some w"
    and r: "0 \<le> w \<or> w = t" and c: "\<not> (0 < t \<and> t \<le> w)"
    using False by (auto simp: progress_ok_def split: option.splits)
  consider (zero) "t = 0" | (neg) "t < 0" | (pos) "0 < t" by linarith
  then show ?thesis
  proof cases
    case zero
    with False t show ?thesis by (simp add: percentage_watched_def)
  next
    case neg
    with r have m: "min w t = t" by auto
    have "(of_int t :: rat) / of_int t = 1" using neg by simp
    with False t w neg m show ?thesis
      by (simp add: percentage_watched_def Let_def)
  next
    case pos
    with c r have lt: "w < t" and ge: "0 \<le> w" by auto
    then have m: "min w t = w" by simp
    define q :: rat where "q = of_int w / of_int t"
    have pt: "(0::rat) < of_int t" using pos by simp
    have pc: "percentage_watched e = py_round2 (q * 100)"
      using False t w pos m by (simp add: percentage_watched_def Let_def q_def)
    have "0 \<le> q" using ge pt by (simp add: q_def)
    then have x0: "0 \<le> q * 100" by simp
    have "(of_int w :: rat) \<le> of_int t" using lt by simp
    then have "q \<le> 1" using pt by (simp add: q_def divide_le_eq)
    then have x1: "q * 100 \<le> 100" by simp
    have small: "q * 100 < 99995 / 1000" if "t < 20000"
    proof -
      from lt that have "w * 20000 < 19999 * t" by linarith
      then have "(of_int (w * 20000) :: rat) < of_int (19999 * t)"
        unfolding of_int_less_iff .
      then have "(of_int w :: rat) * 20000 < 19999 * of_int t" by simp
      then have "q < 19999 / 20000"
        using pt by (simp add: q_def divide_less_eq)
      then show ?thesis by simp
    qed
    from py_round2_range [OF x0 x1] py_round2_below [OF small] False t show ?thesis
      by (simp add: pc)
  qed
qed

lemma progress_ok_commit [simp]: "progress_ok (commit_entry now old e) = progress_ok e"
  by (simp add: progress_ok_def split: option.splits)

lemma update_keeps_progress_ok:
  assumes found: "find_entry s uid ''series'' sid = Some e"
    and inv: "progress_ok e"
    and run: "update_series_progress parse now s uid sid p = Inr (e', s')"
  shows "progress_ok e'"
proof -
  let ?F = "fields_set parse p"
  have ct: "content_type e = ''series''"
    using find_entry_SomeD [OF found] by simp
  note ok = update_InrD(1) [OF found run]
  from update_InrD(2) [OF found run] obtain e5 where
    rc: "recompute now s (status_set now s p (?F e)) = Inr e5"
    and e': "e' = commit_entry now e e5" by blast
  from inv obtain t w where t: "total_episodes e = Some t" and w: "watched_episodes e = Some w"
    and r: "0 \<le> w \<or> w = t"
    by (auto simp: progress_ok_def split: option.splits)
  from new_watched_cases [OF ok] t w r obtain w' where
    w': "new_watched parse p e = Some w'" "0 \<le> w' \<or> w' = t"
    by auto
  have f: "watched_episodes (?F e) = Some w'" "total_episodes (?F e) = Some t"
    "content_type (?F e) = ''series''"
    using w' t ct by simp_all
  have ct4: "content_type (status_set now s p (?F e)) = ''series''"
    using ct by simp
  have "progress_ok e5"
  proof (cases "p ''status'' = Some watched")
    case True
    then have x: "status_set now s p (?F e) = marked now s (?F e)"
      by (simp add: status_set_def)
    from rc have "e5 = marked now s (?F e)" by (simp add: x recompute_def)
    then show ?thesis using f w' by (auto simp: progress_ok_def)
  next
    case False
    show ?thesis
    proof (cases "p ''status''")
      case None
      then have x: "status_set now s p (?F e) = ?F e"
        by (simp add: status_set_def)
      have r: "recompute now s (?F e) = Inr e5"
        using rc by (simp add: x)
      show ?thesis
        using r f w' inv t w
        by (auto simp: recompute_series progress_ok_def split: if_splits)
    next
      case (Some v)
      with False have x: "status_set now s p (?F e) = (?F e)\<lparr>status := v\<rparr>"
        by (simp add: status_set_def)
      have r: "recompute now s ((?F e)\<lparr>status := v\<rparr>) = Inr e5"
        using rc by (simp add: x)
      show ?thesis
        using r f w'
        by (auto simp: recompute_series progress_ok_def split: if_splits)
    qed
  qed
  then show ?thesis by (simp add: e')
qed

lemma set_replace_first: "set (replace_first P y xs) \<subseteq> insert y (set xs)"
  by (induction xs) auto

lemma reachable_progress_ok:
  "reachable s \<Longrightarrow> \<forall>e\<in>set (watch_entries s). progress_ok e"
proof (induction rule: reachable.induct)
  case (start s)
  then show ?case by simp
next
  case (movie s now uid mid e s')
  from movie.hyps(2) have "watch_entries s' = watch_entries s @ [e]" and "progress_ok e"
    by (auto simp: add_movie_def insert_entry_def WatchEntry_init_def col_default_def Let_def
        progress_ok_def split: option.splits)
  with movie.IH show ?case by auto
next
  case (series s now uid sid e s')
  from series.hyps(2) have "watch_entries s' = watch_entries s @ [e]" and "progress_ok e"
    by (auto simp: add_series_def insert_entry_def WatchEntry_init_def col_default_def Let_def
        progress_ok_def split: option.splits)
  with series.IH show ?case by auto
next
  case (progress s parse now uid sid p e s')
  from progress.hyps(2) obtain e0 where found: "find_entry s uid ''series'' sid = Some e0"
    by (cases "find_entry s uid ''series'' sid") (auto simp: update_series_progress_def)
  then have "e0 \<in> set (watch_entries s)" using find_entry_SomeD by blast
  with progress.IH have "progress_ok e0" by blast
  from update_keeps_progress_ok [OF found this progress.hyps(2)] have e: "progress_ok e" .
  have "set (watch_entries s') \<subseteq> insert e (set (watch_entries s))"
    by (subst update_InrD(3) [OF found progress.hyps(2)]) (simp add: set_replace_first)
  with e progress.IH show ?case by auto
next
  case (season s sid q x s')
  from season.hyps(2) have "watch_entries s' = watch_entries s"
    by (auto simp: add_season_def Let_def split: option.splits prod.splits)
  with season.IH show ?case by simp
qed

lemma demo_add_series:
  "add_series 5 (with_entries []) 7 1
     = Inr (demo_entry pending (Some 1) (Some 1) (Some 0) (Some 18),
            with_entries [demo_entry pending (Some 1) (Some 1) (Some 0) (Some 18)])"
  by (simp add: add_series_def get_series_def find_entry_def series_seasons_def
      insert_entry_def WatchEntry_init_def col_default_def next_id_def Let_def
      with_entries_def demo_store_def demo_entry_def)

lemma marathon_add_series:
  "add_series 5 (marathon_store []) 7 1
     = Inr (demo_entry pending (Some 1) (Some 1) (Some 0) (Some 100000),
            marathon_store [demo_entry pending (Some 1) (Some 1) (Some 0) (Some 100000)])"
  by (simp add: add_series_def get_series_def find_entry_def series_seasons_def
      insert_entry_def WatchEntry_init_def col_default_def next_id_def Let_def
      marathon_store_def demo_entry_def)

text \<open>An update with a payload \<^verbatim>\<open>{"watched_episodes": n}\<close>, \<open>0 < n\<close> below the
  total, on the pending entry of either example catalog.\<close>

lemma watch_some_episodes:
  assumes "catalog = with_entries \<or> catalog = marathon_store"
    and "0 < n" and "n < tot"
  shows "update_series_progress no_literal 9
           (catalog [demo_entry pending (Some 1) (Some 1) (Some 0) (Some tot)]) 7 1
           [''watched_episodes'' \<mapsto> JInt n]
         = Inr ((demo_entry watching (Some 1) (Some 1) (Some n) (Some tot))\<lparr>updated_at := 9\<rparr>,
                catalog [(demo_entry watching (Some 1) (Some 1) (Some n) (Some tot))\<lparr>updated_at := 9\<rparr>])"
proof -
  let ?e = "demo_entry pending (Some 1) (Some 1) (Some 0) (Some tot)"
  let ?e1 = "(demo_entry watching (Some 1) (Some 1) (Some n) (Some tot))\<lparr>updated_at := 9\<rparr>"
  let ?p = "[''watched_episodes'' \<mapsto> JInt n]"
  have a: "find_entry (catalog [?e]) 7 ''series'' 1 = Some ?e"
    using assms(1)
    by (auto simp: find_entry_def with_entries_def marathon_store_def demo_entry_def
        entry_matches_def)
  have d: "numeric_ok no_literal ?p"
    by (simp add: numeric_ok_def converts_def py_int_def)
  have rc: "recompute 9 (catalog [?e]) (status_set 9 (catalog [?e]) ?p
              (fields_set no_literal ?p ?e))
            = Inr (demo_entry watching (Some 1) (Some 1) (Some n) (Some tot))"
    using assms(2,3)
    by (simp add: status_set_def fields_set_def new_watched_def new_cursor_def py_int_def
        recompute_def completed_def bind_err_def or0_def demo_entry_def)
  have cm: "commit_entry 9 ?e (demo_entry watching (Some 1) (Some 1) (Some n) (Some tot)) = ?e1"
    by (simp add: commit_entry_def demo_entry_def)
  show ?thesis
    using update_run [OF a d rc] assms(1) unfolding cm
    by (auto simp: with_entries_def marathon_store_def entry_matches_def demo_entry_def)
qed

lemma demo_mark_watched:
  "update_series_progress no_literal 9
       (with_entries [demo_entry pending (Some 1) (Some 1) (Some 0) (Some 18)]) 7 1
       [''status'' \<mapsto> watched]
     = Inr ((demo_entry watched (Some 2) (Some 8) (Some 18) (Some 18))\<lparr>updated_at := 9\<rparr>,
            with_entries [(demo_entry watched (Some 2) (Some 8) (Some 18) (Some 18))\<lparr>updated_at := 9\<rparr>])"
proof -
  let ?e = "demo_entry pending (Some 1) (Some 1) (Some 0) (Some 18)"
  let ?s = "with_entries [?e]"
  let ?p = "[''status'' \<mapsto> watched]"
  let ?e' = "(demo_entry watched (Some 2) (Some 8) (Some 18) (Some 18))\<lparr>updated_at := 9\<rparr>"
  have d: "numeric_ok no_literal ?p"
    by (simp add: numeric_ok_def converts_def py_int_def)
  have m: "status_set 9 ?s ?p (fields_set no_literal ?p ?e) = ?e'"
    by (simp add: status_set_def marked_def demo_terminal_cursor fields_set_def
        new_watched_def new_cursor_def demo_entry_def)
  have rc: "recompute 9 ?s (status_set 9 ?s ?p (fields_set no_literal ?p ?e)) = Inr ?e'"
    unfolding m by (simp add: recompute_def demo_entry_def)
  have cm: "commit_entry 9 ?e ?e' = ?e'"
    by (rule commit_entry_stamped) simp
  from update_run [OF demo_find_entry(2) d rc] show ?thesis
    unfolding cm by (simp add: with_entries_def entry_matches_def demo_entry_def)
qed

text \<open>
  C4, as the code has it. For every entry of a reachable store,
  \<^verbatim>\<open>percentage_watched\<close> lies between 0 and 100 and is 100 when the status
  is watched. When the status is not watched and the total is at least 0 and
  less than 20000, the percentage is less than 100.
\<close>

theorem percentage_reachable:
  assumes "reachable s" and "e \<in> set (watch_entries s)"
  shows "0 \<le> percentage_watched e \<and> percentage_watched e \<le> 100
         \<and> (status e = watched \<longrightarrow> percentage_watched e = 100)
         \<and> (status e \<noteq> watched \<and> 0 \<le> or0 (total_episodes e)
              \<and> or0 (total_episodes e) < 20000 \<longrightarrow> percentage_watched e < 100)"
  using reachable_progress_ok [OF assms(1)] assms(2)
  by (intro percentage_of_progress_ok) blast

theorem percentage_reachable_witness:
  "0 \<le> percentage_watched
          ((demo_entry watching (Some 1) (Some 1) (Some 5) (Some 18))\<lparr>updated_at := 9\<rparr>)
   \<and> percentage_watched
          ((demo_entry watching (Some 1) (Some 1) (Some 5) (Some 18))\<lparr>updated_at := 9\<rparr>) < 100
   \<and> percentage_watched
          ((demo_entry watched (Some 2) (Some 8) (Some 18) (Some 18))\<lparr>updated_at := 9\<rparr>) = 100"
proof -
  let ?e0 = "demo_entry pending (Some 1) (Some 1) (Some 0) (Some 18)"
  let ?e1 = "(demo_entry watching (Some 1) (Some 1) (Some 5) (Some 18))\<lparr>updated_at := 9\<rparr>"
  let ?e2 = "(demo_entry watched (Some 2) (Some 8) (Some 18) (Some 18))\<lparr>updated_at := 9\<rparr>"
  have r0: "reachable (with_entries [])"
    by (rule reachable.start) (simp add: with_entries_def)
  have r1: "reachable (with_entries [?e0])"
    using r0 demo_add_series by (rule reachable.series)
  have u1: "update_series_progress no_literal 9 (with_entries [?e0]) 7 1
              [''watched_episodes'' \<mapsto> JInt 5] = Inr (?e1, with_entries [?e1])"
    by (rule watch_some_episodes) simp_all
  have r2: "reachable (with_entries [?e1])"
    using r1 u1 by (rule reachable.progress)
  have r3: "reachable (with_entries [?e2])"
    using r1 demo_mark_watched by (rule reachable.progress)
  have m1: "?e1 \<in> set (watch_entries (with_entries [?e1]))"
    and m2: "?e2 \<in> set (watch_entries (with_entries [?e2]))"
    by (simp_all add: with_entries_def)
  from percentage_reachable [OF r2 m1] percentage_reachable [OF r3 m2] show ?thesis
    by (simp add: demo_entry_def or0_def)
qed

text \<open>
  A series with one season of 100000 episodes is added to the watchlist and
  99999 episodes are reported watched. The stored entry is in a reachable
  store, its status is watching, and its percentage is
  \<^verbatim>\<open>round(99.999, 2)\<close>, which is 100.
\<close>

theorem percentage_100_not_watched:
  "reachable (marathon_store
      [(demo_entry watching (Some 1) (Some 1) (Some 99999) (Some 100000))\<lparr>updated_at := 9\<rparr>])
   \<and> status ((demo_entry watching (Some 1) (Some 1) (Some 99999) (Some 100000))\<lparr>updated_at := 9\<rparr>)
       \<noteq> watched
   \<and> percentage_watched
       ((demo_entry watching (Some 1) (Some 1) (Some 99999) (Some 100000))\<lparr>updated_at := 9\<rparr>)
       = 100"
proof -
  let ?e0 = "demo_entry pending (Some 1) (Some 1) (Some 0) (Some 100000)"
  let ?e1 = "(demo_entry watching (Some 1) (Some 1) (Some 99999) (Some 100000))\<lparr>updated_at := 9\<rparr>"
  have r0: "reachable (marathon_store [])"
    by (rule reachable.start) (simp add: marathon_store_def)
  have r1: "reachable (marathon_store [?e0])"
    using r0 marathon_add_series by (rule reachable.series)
  have u1: "update_series_progress no_literal 9 (marathon_store [?e0]) 7 1
              [''watched_episodes'' \<mapsto> JInt 99999] = Inr (?e1, marathon_store [?e1])"
    by (rule watch_some_episodes) simp_all
  have r2: "reachable (marathon_store [?e1])"
    using r1 u1 by (rule reachable.progress)
  have st: "status ?e1 \<noteq> watched"
    by (simp add: demo_entry_def)
  have "percentage_watched ?e1 = py_round2 (of_int 99999 / of_int 100000 * 100)"
    by (simp add: percentage_watched_def demo_entry_def or0_def Let_def)
  then have pc: "percentage_watched ?e1 = 100"
    by (simp only: py_round2_99_999)
  from r2 st pc show ?thesis by blast
qed

section \<open>The status field and the recomputation\<close>

text \<open>
  With \<^verbatim>\<open>{"status": "watched", "watched_episodes": null}\<close> the service
  raises at \<^verbatim>\<open>int(payload["watched_episodes"])\<close>, before it reads the
  status: the route answers 500, and the entry is still pending with no
  episode watched.
\<close>

theorem status_watched_null_episodes:
  "update_series_progress no_literal 9
       (with_entries [demo_entry pending (Some 1) (Some 1) (Some 0) (Some 18)]) 7 1
       [''status'' \<mapsto> watched, ''watched_episodes'' \<mapsto> JNull] = Inl TypeError
   \<and> update_series_progress_route no_literal 9
       (with_entries [demo_entry pending (Some 1) (Some 1) (Some 0) (Some 18)]) 7 1
       [''status'' \<mapsto> watched, ''watched_episodes'' \<mapsto> JNull]
     = (500, with_entries [demo_entry pending (Some 1) (Some 1) (Some 0) (Some 18)])"
proof -
  let ?e = "demo_entry pending (Some 1) (Some 1) (Some 0) (Some 18)"
  let ?p = "[''status'' \<mapsto> watched, ''watched_episodes'' \<mapsto> JNull]"
  have f: "apply_fields no_literal ?p ?e = Inl TypeError"
    by (simp add: apply_fields_def set_watched_episodes_def py_int_def bind_err_def)
  have run: "update_series_progress no_literal 9 (with_entries [?e]) 7 1 ?p = Inl TypeError"
    by (simp add: update_series_progress_alt demo_find_entry f bind_err_def)
  then show ?thesis
    by (simp add: update_series_progress_route_def)
qed

lemma apply_fields_InrD:
  assumes "apply_fields parse p e = Inr e3"
  shows "numeric_ok parse p" and "e3 = fields_set parse p e"
proof -
  show ok: "numeric_ok parse p"
    using assms
    by (auto simp: apply_fields_def set_watched_episodes_def set_current_season_def
        set_current_episode_def bind_err_def numeric_ok_def converts_def
        split: option.splits sum.splits)
  show "e3 = fields_set parse p e"
    using assms by (simp add: apply_fields_ok [OF ok] fields_set_def)
qed

text \<open>
  C2. Take an entry of a reachable store, or any entry whose
  \<^verbatim>\<open>total_episodes\<close> is set (every entry of a reachable store is one), and a
  payload whose numeric fields have been applied. Then the status field is
  applied without an error, the recomputation returns, and the update stores
  its result. When the status after the payload is watched, the recomputation
  leaves the entry as it is. Otherwise it runs \<^verbatim>\<open>mark_as_watched\<close>, which
  sets the status to watched, when the watched episodes have reached a
  positive total; it sets the status to watching when some episode is watched,
  and to pending when none is.
\<close>

theorem recomputation_after_payload:
  assumes dom: "reachable s \<or> total_episodes e \<noteq> None"
    and found: "find_entry s uid ''series'' sid = Some e"
    and applied: "apply_fields parse p e = Inr e3"
  shows "\<exists>e4 e5 s' t.
           set_status now s p e3 = Inr e4 \<and> recompute now s e4 = Inr e5
           \<and> update_series_progress parse now s uid sid p = Inr (commit_entry now e e5, s')
           \<and> find_entry s' uid ''series'' sid = Some (commit_entry now e e5)
           \<and> status (commit_entry now e e5) = status e5
           \<and> total_episodes e4 = Some t
           \<and> (status e4 = watched \<longrightarrow> e5 = e4)
           \<and> (status e4 \<noteq> watched \<and> t \<le> or0 (watched_episodes e4) \<and> 0 < t \<longrightarrow>
                 mark_as_watched now s e4 = Inr e5 \<and> status e5 = watched)
           \<and> (status e4 \<noteq> watched \<and> \<not> (t \<le> or0 (watched_episodes e4) \<and> 0 < t)
                \<and> 0 < or0 (watched_episodes e4) \<longrightarrow> e5 = e4\<lparr>status := watching\<rparr>)
           \<and> (status e4 \<noteq> watched \<and> \<not> (t \<le> or0 (watched_episodes e4) \<and> 0 < t)
                \<and> \<not> 0 < or0 (watched_episodes e4) \<longrightarrow> e5 = e4\<lparr>status := pending\<rparr>)"
proof -
  have ct: "content_type e = ''series''" and mem: "e \<in> set (watch_entries s)"
    using find_entry_SomeD [OF found] by simp_all
  have "total_episodes e \<noteq> None"
  proof (cases "reachable s")
    case True
    from reachable_progress_ok [OF True] mem have "progress_ok e" by blast
    then show ?thesis by (auto simp: progress_ok_def split: option.splits)
  next
    case False
    with dom show ?thesis by simp
  qed
  then obtain t where t: "total_episodes e = Some t" by auto
  note ok = apply_fields_InrD(1) [OF applied]
  note e3 = apply_fields_InrD(2) [OF applied]
  define e4 where "e4 = status_set now s p e3"
  have ct3: "content_type e3 = ''series''" using ct by (simp add: e3)
  have st: "set_status now s p e3 = Inr e4"
    by (simp add: set_status_series [OF ct3] status_set_def e4_def)
  have ct4: "content_type e4 = ''series''" and t4: "total_episodes e4 = Some t"
    using ct t by (simp_all add: e4_def e3)
  define e5 where "e5 =
     (if status e4 = watched then e4
      else if t \<le> or0 (watched_episodes e4) \<and> 0 < t then marked now s e4
      else if 0 < or0 (watched_episodes e4) then e4\<lparr>status := watching\<rparr>
      else e4\<lparr>status := pending\<rparr>)"
  have rc: "recompute now s e4 = Inr e5"
    by (simp add: recompute_series [OF ct4] t4 e5_def)
  have rc': "recompute now s (status_set now s p (fields_set parse p e)) = Inr e5"
    using rc by (simp add: e4_def e3)
  note run = update_run [OF found ok rc']
  from update_stored [OF found run]
  have stored: "find_entry
      (s\<lparr>watch_entries := replace_first (entry_matches uid ''series'' sid)
                            (commit_entry now e e5) (watch_entries s)\<rparr>)
      uid ''series'' sid = Some (commit_entry now e e5)" by simp
  have a: "status e4 = watched \<longrightarrow> e5 = e4"
    by (simp add: e5_def)
  have b: "status e4 \<noteq> watched \<and> t \<le> or0 (watched_episodes e4) \<and> 0 < t \<longrightarrow>
             mark_as_watched now s e4 = Inr e5 \<and> status e5 = watched"
    by (simp add: e5_def mark_as_watched_marked [OF ct4])
  have c: "status e4 \<noteq> watched \<and> \<not> (t \<le> or0 (watched_episodes e4) \<and> 0 < t)
             \<and> 0 < or0 (watched_episodes e4) \<longrightarrow> e5 = e4\<lparr>status := watching\<rparr>"
    by (simp add: e5_def)
  have d: "status e4 \<noteq> watched \<and> \<not> (t \<le> or0 (watched_episodes e4) \<and> 0 < t)
             \<and> \<not> 0 < or0 (watched_episodes e4) \<longrightarrow> e5 = e4\<lparr>status := pending\<rparr>"
    by (simp add: e5_def)
  have cs: "status (commit_entry now e e5) = status e5" by simp
  from st rc run stored cs t4 a b c d show ?thesis by blast
qed

theorem recomputation_after_payload_witness:
  "(\<exists>e' s'. update_series_progress no_literal 9
        (with_entries [demo_entry pending (Some 1) (Some 1) (Some 0) (Some 18)]) 7 1
        [''watched_episodes'' \<mapsto> JInt 5] = Inr (e', s') \<and> status e' = watching)
   \<and> (\<exists>e' s'. update_series_progress no_literal 9
        (with_entries [demo_entry pending (Some 1) (Some 1) (Some 0) (Some 18)]) 7 1
        [''watched_episodes'' \<mapsto> JInt 18] = Inr (e', s') \<and> status e' = watched)
   \<and> (\<exists>e' s'. update_series_progress no_literal 9
        (with_entries [demo_entry pending (Some 1) (Some 1) (Some 0) (Some 18)]) 7 1
        [''current_season'' \<mapsto> JInt 2] = Inr (e', s') \<and> status e' = pending)
   \<and> (\<exists>e' s'. update_series_progress no_literal 9
        (with_entries [demo_entry pending (Some 1) (Some 1) (Some 0) (Some 18)]) 7 1
        [''status'' \<mapsto> watched] = Inr (e', s') \<and> status e' = watched)"
proof -
  let ?e0 = "demo_entry pending (Some 1) (Some 1) (Some 0) (Some 18)"
  let ?s = "with_entries [?e0]"
  have r0: "reachable (with_entries [])"
    by (rule reachable.start) (simp add: with_entries_def)
  have "reachable ?s"
    using r0 demo_add_series by (rule reachable.series)
  then have dom: "reachable ?s \<or> total_episodes ?e0 \<noteq> None" ..
  have found: "find_entry ?s 7 ''series'' 1 = Some ?e0"
    by (rule demo_find_entry)
  have i1: "\<exists>e' s'. update_series_progress no_literal 9 ?s 7 1 [''watched_episodes'' \<mapsto> JInt 5] = Inr (e', s')
                 \<and> status e' = watching"
  proof -
    let ?p = "[''watched_episodes'' \<mapsto> JInt 5]"
    have d: "numeric_ok no_literal ?p"
      by (simp add: numeric_ok_def converts_def py_int_def)
    have ap: "apply_fields no_literal ?p ?e0 = Inr (fields_set no_literal ?p ?e0)"
      by (simp add: apply_fields_ok [OF d] fields_set_def)
    from recomputation_after_payload [OF dom found ap, of 9] obtain e4 e5 s' t where
      st: "set_status 9 ?s ?p (fields_set no_literal ?p ?e0) = Inr e4"
      and run: "update_series_progress no_literal 9 ?s 7 1 ?p = Inr (commit_entry 9 ?e0 e5, s')"
      and cs: "status (commit_entry 9 ?e0 e5) = status e5"
      and t: "total_episodes e4 = Some t"
      and a: "status e4 = watched \<longrightarrow> e5 = e4"
      and b: "status e4 \<noteq> watched \<and> t \<le> or0 (watched_episodes e4) \<and> 0 < t \<longrightarrow>
                mark_as_watched 9 ?s e4 = Inr e5 \<and> status e5 = watched"
      and c: "status e4 \<noteq> watched \<and> \<not> (t \<le> or0 (watched_episodes e4) \<and> 0 < t)
                \<and> 0 < or0 (watched_episodes e4) \<longrightarrow> e5 = e4\<lparr>status := watching\<rparr>"
      and e: "status e4 \<noteq> watched \<and> \<not> (t \<le> or0 (watched_episodes e4) \<and> 0 < t)
                \<and> \<not> 0 < or0 (watched_episodes e4) \<longrightarrow> e5 = e4\<lparr>status := pending\<rparr>"
      by blast
    have e4: "e4 = status_set 9 ?s ?p (fields_set no_literal ?p ?e0)"
      using st by (simp add: set_status_series status_set_def demo_entry_def)
    have f: "status e4 = pending" "watched_episodes e4 = Some 5" "total_episodes e4 = Some 18"
      unfolding e4
      by (simp_all add: status_set_def fields_set_def new_watched_def new_cursor_def py_int_def
          demo_entry_def)
    from f t have "t = 18" by simp
    with f c have "status e5 = watching" by simp
    with run cs show ?thesis by auto
  qed
  have i2: "\<exists>e' s'. update_series_progress no_literal 9 ?s 7 1 [''watched_episodes'' \<mapsto> JInt 18] = Inr (e', s')
                 \<and> status e' = watched"
  proof -
    let ?p = "[''watched_episodes'' \<mapsto> JInt 18]"
    have d: "numeric_ok no_literal ?p"
      by (simp add: numeric_ok_def converts_def py_int_def)
    have ap: "apply_fields no_literal ?p ?e0 = Inr (fields_set no_literal ?p ?e0)"
      by (simp add: apply_fields_ok [OF d] fields_set_def)
    from recomputation_after_payload [OF dom found ap, of 9] obtain e4 e5 s' t where
      st: "set_status 9 ?s ?p (fields_set no_literal ?p ?e0) = Inr e4"
      and run: "update_series_progress no_literal 9 ?s 7 1 ?p = Inr (commit_entry 9 ?e0 e5, s')"
      and cs: "status (commit_entry 9 ?e0 e5) = status e5"
      and t: "total_episodes e4 = Some t"
      and a: "status e4 = watched \<longrightarrow> e5 = e4"
      and b: "status e4 \<noteq> watched \<and> t \<le> or0 (watched_episodes e4) \<and> 0 < t \<longrightarrow>
                mark_as_watched 9 ?s e4 = Inr e5 \<and> status e5 = watched"
      and c: "status e4 \<noteq> watched \<and> \<not> (t \<le> or0 (watched_episodes e4) \<and> 0 < t)
                \<and> 0 < or0 (watched_episodes e4) \<longrightarrow> e5 = e4\<lparr>status := watching\<rparr>"
      and e: "status e4 \<noteq> watched \<and> \<not> (t \<le> or0 (watched_episodes e4) \<and> 0 < t)
                \<and> \<not> 0 < or0 (watched_episodes e4) \<longrightarrow> e5 = e4\<lparr>status := pending\<rparr>"
      by blast
    have e4: "e4 = status_set 9 ?s ?p (fields_set no_literal ?p ?e0)"
      using st by (simp add: set_status_series status_set_def demo_entry_def)
    have f: "status e4 = pending" "watched_episodes e4 = Some 18" "total_episodes e4 = Some 18"
      unfolding e4
      by (simp_all add: status_set_def fields_set_def new_watched_def new_cursor_def py_int_def
          demo_entry_def)
    from f t have "t = 18" by simp
    with f b have "status e5 = watched" by simp
    with run cs show ?thesis by auto
  qed
  have i3: "\<exists>e' s'. update_series_progress no_literal 9 ?s 7 1 [''current_season'' \<mapsto> JInt 2] = Inr (e', s')
                 \<and> status e' = pending"
  proof -
    let ?p = "[''current_season'' \<mapsto> JInt 2]"
    have d: "numeric_ok no_literal ?p"
      by (simp add: numeric_ok_def converts_def py_int_def)
    have ap: "apply_fields no_literal ?p ?e0 = Inr (fields_set no_literal ?p ?e0)"
      by (simp add: apply_fields_ok [OF d] fields_set_def)
    from recomputation_after_payload [OF dom found ap, of 9] obtain e4 e5 s' t where
      st: "set_status 9 ?s ?p (fields_set no_literal ?p ?e0) = Inr e4"
      and run: "update_series_progress no_literal 9 ?s 7 1 ?p = Inr (commit_entry 9 ?e0 e5, s')"
      and cs: "status (commit_entry 9 ?e0 e5) = status e5"
      and t: "total_episodes e4 = Some t"
      and a: "status e4 = watched \<longrightarrow> e5 = e4"
      and b: "status e4 \<noteq> watched \<and> t \<le> or0 (watched_episodes e4) \<and> 0 < t \<longrightarrow>
                mark_as_watched 9 ?s e4 = Inr e5 \<and> status e5 = watched"
      and c: "status e4 \<noteq> watched \<and> \<not> (t \<le> or0 (watched_episodes e4) \<and> 0 < t)
                \<and> 0 < or0 (watched_episodes e4) \<longrightarrow> e5 = e4\<lparr>status := watching\<rparr>"
      and e: "status e4 \<noteq> watched \<and> \<not> (t \<le> or0 (watched_episodes e4) \<and> 0 < t)
                \<and> \<not> 0 < or0 (watched_episodes e4) \<longrightarrow> e5 = e4\<lparr>status := pending\<rparr>"
      by blast
    have e4: "e4 = status_set 9 ?s ?p (fields_set no_literal ?p ?e0)"
      using st by (simp add: set_status_series status_set_def demo_entry_def)
    have f: "status e4 = pending" "watched_episodes e4 = Some 0" "total_episodes e4 = Some 18"
      unfolding e4
      by (simp_all add: status_set_def fields_set_def new_watched_def new_cursor_def py_int_def
          demo_entry_def)
    from f t have "t = 18" by simp
    with f e have "status e5 = pending" by simp
    with run cs show ?thesis by auto
  qed
  have i4: "\<exists>e' s'. update_series_progress no_literal 9 ?s 7 1 [''status'' \<mapsto> watched] = Inr (e', s')
                 \<and> status e' = watched"
  proof -
    let ?p = "[''status'' \<mapsto> watched]"
    have d: "numeric_ok no_literal ?p"
      by (simp add: numeric_ok_def converts_def py_int_def)
    have ap: "apply_fields no_literal ?p ?e0 = Inr (fields_set no_literal ?p ?e0)"
      by (simp add: apply_fields_ok [OF d] fields_set_def)
    from recomputation_after_payload [OF dom found ap, of 9] obtain e4 e5 s' t where
      st: "set_status 9 ?s ?p (fields_set no_literal ?p ?e0) = Inr e4"
      and run: "update_series_progress no_literal 9 ?s 7 1 ?p = Inr (commit_entry 9 ?e0 e5, s')"
      and cs: "status (commit_entry 9 ?e0 e5) = status e5"
      and t: "total_episodes e4 = Some t"
      and a: "status e4 = watched \<longrightarrow> e5 = e4"
      and b: "status e4 \<noteq> watched \<and> t \<le> or0 (watched_episodes e4) \<and> 0 < t \<longrightarrow>
                mark_as_watched 9 ?s e4 = Inr e5 \<and> status e5 = watched"
      and c: "status e4 \<noteq> watched \<and> \<not> (t \<le> or0 (watched_episodes e4) \<and> 0 < t)
                \<and> 0 < or0 (watched_episodes e4) \<longrightarrow> e5 = e4\<lparr>status := watching\<rparr>"
      and e: "status e4 \<noteq> watched \<and> \<not> (t \<le> or0 (watched_episodes e4) \<and> 0 < t)
                \<and> \<not> 0 < or0 (watched_episodes e4) \<longrightarrow> e5 = e4\<lparr>status := pending\<rparr>"
      by blast
    have e4: "e4 = status_set 9 ?s ?p (fields_set no_literal ?p ?e0)"
      using st by (simp add: set_status_series status_set_def demo_entry_def)
    have f: "status e4 = watched" "total_episodes e4 = Some 18"
      unfolding e4
      by (simp_all add: status_set_def fields_set_def new_watched_def new_cursor_def py_int_def
          demo_entry_def)
    from f t have "t = 18" by simp
    with f a have "status e5 = watched" by simp
    with run cs show ?thesis by auto
  qed
  from i1 i2 i3 i4 show ?thesis by blast
qed

end
